theory Spec2Isabelle
  imports Main
begin

section \<open>go-mysqldump: the dump assembly and rendering of \<open>dump.go\<close>\<close>

text \<open>
  The development embeds \<open>src/dump.go\<close>. The database connection, the clock and the
  file system are the program's environment: they are explicit inputs (what a query
  answers, what the clock reads, whether a file can be created or written) and explicit
  state (the files on disk, the queries issued so far).
\<close>

subsection \<open>Characters and strings\<close>

definition NL :: string where
  "NL = [CHR 0x0A]"

definition TAB :: string where
  "TAB = [CHR 0x09]"

text \<open>The single quote character.\<close>

definition SQ :: string where
  "SQ = [CHR 0x27]"

text \<open>Go's \<open>strings.Join(elems, sep)\<close>.\<close>

fun strings_Join :: "string list \<Rightarrow> string \<Rightarrow> string" where
  "strings_Join [] sep = []"
| "strings_Join [x] sep = x"
| "strings_Join (x # y # ys) sep = x @ sep @ strings_Join (y # ys) sep"

subsection \<open>Data model (lines 13--26)\<close>

record table =
  Name :: string
  SQL :: string
  Values :: string

record dump =
  DumpVersion :: string
  ServerVersion :: string
  Tables :: "table list"
  CompleteTime :: string

definition version :: string where
  "version = ''0.1.0''"

subsection \<open>Errors\<close>

text \<open>
  \<open>Errors_New\<close> is an error made by \<open>errors.New\<close> in \<open>dump.go\<close> itself. The other
  constructors are the errors that reach the program from outside: \<open>database/sql\<close>
  (\<open>ErrNoRows\<close>, and the two ways \<open>Scan\<close> fails), the driver (its message) and the
  operating system (its message).
\<close>

datatype error =
    Errors_New string
  | ErrNoRows
  | Scan_Null nat
  | Scan_Arity nat nat
  | Driver_Error string
  | Os_Error string

subsection \<open>The database connection\<close>

text \<open>
  A value of a result row as the driver hands it to \<open>database/sql\<close>: SQL NULL (Go's
  \<open>nil\<close>), or a value whose conversion to a Go \<open>string\<close> is the given text.
\<close>

datatype sqlval = SqlNull | SqlText string

text \<open>
  An open result set (\<open>*sql.Rows\<close>): what \<open>Columns()\<close> returns, the rows that
  \<open>Next()\<close> delivers before it returns false, what \<open>Err()\<close> reports then, and the
  error of \<open>Close()\<close>, if the driver fails to close the result set.
  An error of the environment is its message, on the left.
\<close>

record rows =
  columns :: "string + string list"
  body :: "sqlval list list"
  rows_Err :: "string option"
  rows_Close :: "string option"

text \<open>
  The connection answers a query text with a driver error or a result set. The source
  is taken at one moment: the same query has the same answer during a run.
\<close>

type_synonym db = "string \<Rightarrow> string + rows"

text \<open>
  \<open>convertAssign\<close> of \<open>database/sql\<close> for a destination of type \<open>*string\<close>, at column
  \<open>i\<close>: a NULL source is refused (\<open>converting NULL to string is unsupported\<close>), any
  other value is stored as its text.
\<close>

definition convertAssign :: "sqlval \<Rightarrow> nat \<Rightarrow> error + string" where
  "convertAssign src i = (case src of SqlNull \<Rightarrow> Inl (Scan_Null i) | SqlText s \<Rightarrow> Inr s)"

text \<open>The column loop of \<open>Rows.Scan\<close>: it stops at the first conversion that fails.\<close>

fun scan_cols :: "sqlval list \<Rightarrow> nat \<Rightarrow> error + string list" where
  "scan_cols [] i = Inr []"
| "scan_cols (v # vs) i =
     (case convertAssign v i of
        Inl e \<Rightarrow> Inl e
      | Inr s \<Rightarrow> (case scan_cols vs (Suc i) of Inl e \<Rightarrow> Inl e | Inr ss \<Rightarrow> Inr (s # ss)))"

text \<open>
  \<open>rows.Scan(dest...)\<close> with \<open>n\<close> destinations of type \<open>*string\<close> on the current row:
  the number of destinations must be the number of values of the row.
\<close>

definition Rows_Scan :: "nat \<Rightarrow> sqlval list \<Rightarrow> error + string list" where
  "Rows_Scan n vals =
     (if length vals \<noteq> n then Inl (Scan_Arity (length vals) n) else scan_cols vals 0)"

text \<open>
  The same \<open>Scan\<close> with one destination (\<open>Scan(&table)\<close>, \<open>Scan(&server_version)\<close>)
  and with two (\<open>Scan(&table_return, &table_sql)\<close>).
\<close>

definition Rows_Scan1 :: "sqlval list \<Rightarrow> error + string" where
  "Rows_Scan1 vals =
     (case vals of [v] \<Rightarrow> convertAssign v 0 | _ \<Rightarrow> Inl (Scan_Arity (length vals) 1))"

definition Rows_Scan2 :: "sqlval list \<Rightarrow> error + string \<times> string" where
  "Rows_Scan2 vals =
     (case vals of
        [v0, v1] \<Rightarrow>
          (case convertAssign v0 0 of
             Inl e \<Rightarrow> Inl e
           | Inr s0 \<Rightarrow> (case convertAssign v1 1 of Inl e \<Rightarrow> Inl e | Inr s1 \<Rightarrow> Inr (s0, s1)))
      | _ \<Rightarrow> Inl (Scan_Arity (length vals) 2))"

text \<open>\<open>db.Query(q)\<close>: the query is issued (and logged), the driver's error is wrapped.\<close>

definition db_Query :: "db \<Rightarrow> string \<Rightarrow> string list \<Rightarrow> (error + rows) \<times> string list" where
  "db_Query d q log =
     ((case d q of Inl m \<Rightarrow> Inl (Driver_Error m) | Inr r \<Rightarrow> Inr r), log @ [q])"

text \<open>
  \<open>db.QueryRow(q).Scan(dest...)\<close>, with \<open>scan\<close> the scan of a row into the
  destinations, as \<open>Row.Scan\<close> of \<open>database/sql\<close> does it: the error of the query
  is returned by \<open>Scan\<close>; with no row, the error of the result set or \<open>ErrNoRows\<close>;
  otherwise the first row is scanned, the error of the scan is returned, and after a
  scan that succeeds the result set is closed and the error of \<open>Close()\<close> returned.
  (Where \<open>dump.go\<close> itself closes a result set, at lines 118 and 175, the call is
  deferred and its error dropped.)
\<close>

definition db_QueryRow_Scan ::
    "db \<Rightarrow> string \<Rightarrow> (sqlval list \<Rightarrow> error + 'a) \<Rightarrow> string list \<Rightarrow> (error + 'a) \<times> string list" where
  "db_QueryRow_Scan d q scan log =
     (case db_Query d q log of
        (Inl e, log') \<Rightarrow> (Inl e, log')
      | (Inr r, log') \<Rightarrow>
          ((case body r of
              [] \<Rightarrow> (case rows_Err r of Some m \<Rightarrow> Inl (Driver_Error m) | None \<Rightarrow> Inl ErrNoRows)
            | vals # _ \<Rightarrow>
                (case scan vals of
                   Inl e \<Rightarrow> Inl e
                 | Inr x \<Rightarrow>
                     (case rows_Close r of
                        Some m \<Rightarrow> Inl (Driver_Error m)
                      | None \<Rightarrow> Inr x))), log'))"

subsection \<open>The template (lines 28--51)\<close>

text \<open>The text between \<open>{{ if .Values }}\<close> and its \<open>{{end}}\<close> (lines 41--49).\<close>

definition tmpl_data :: "table \<Rightarrow> string" where
  "tmpl_data t =
     NL @ ''--'' @ NL @
     ''-- Dumping data for table '' @ Name t @ NL @
     ''--'' @ NL @
     NL @
     ''LOCK TABLES '' @ Name t @ '' WRITE;'' @ NL @
     ''INSERT INTO '' @ Name t @ '' VALUES '' @ Values t @ '';'' @ NL @
     ''UNLOCK TABLES;'' @ NL"

text \<open>
  The body of \<open>{{range .Tables}}\<close> (lines 34--49) for one table. \<open>{{ if .Values }}\<close> on
  a string is true when the string is not empty.
\<close>

definition tmpl_table :: "table \<Rightarrow> string" where
  "tmpl_table t =
     NL @ ''--'' @ NL @
     ''-- Table structure for table '' @ Name t @ NL @
     ''--'' @ NL @
     NL @
     ''DROP TABLE IF EXISTS '' @ Name t @ '';'' @ NL @
     SQL t @ '';'' @ NL @
     (if Values t \<noteq> [] then tmpl_data t else [])"

text \<open>The text before \<open>{{range .Tables}}\<close> (lines 28--34).\<close>

definition tmpl_header :: "dump \<Rightarrow> string" where
  "tmpl_header data =
     ''-- Go SQL Dump '' @ DumpVersion data @ NL @
     ''--'' @ NL @
     ''-- ------------------------------------------------------'' @ NL @
     ''-- Server version'' @ TAB @ ServerVersion data @ NL @
     NL @
     NL"

text \<open>The text after the \<open>{{ end }}\<close> of the range (lines 49--51).\<close>

definition tmpl_footer :: "dump \<Rightarrow> string" where
  "tmpl_footer data = NL @ ''-- Dump completed on '' @ CompleteTime data @ NL"

text \<open>What \<open>t.Execute(f, data)\<close> writes for the parsed template \<open>tmpl\<close>.\<close>

definition tmpl_Execute :: "dump \<Rightarrow> string" where
  "tmpl_Execute data =
     tmpl_header data @ concat (map tmpl_table (Tables data)) @ tmpl_footer data"

subsection \<open>getServerVersion (lines 131--137) and getTables (lines 110--129)\<close>

definition getServerVersion :: "db \<Rightarrow> string list \<Rightarrow> (error + string) \<times> string list" where
  "getServerVersion d log =
     (case db_QueryRow_Scan d ''SELECT version()'' Rows_Scan1 log of
        (Inl e, log') \<Rightarrow> (Inl e, log')
      | (Inr server_version, log') \<Rightarrow> (Inr server_version, log'))"

text \<open>
  The loop of lines 121--127 over the rows that \<open>Next()\<close> delivers: \<open>tables\<close> is the
  list built so far. It returns the list and the error of the scan that failed, if any.
\<close>

fun getTables_loop :: "sqlval list list \<Rightarrow> string list \<Rightarrow> string list \<times> error option" where
  "getTables_loop [] tables = (tables, None)"
| "getTables_loop (vals # rest) tables =
     (case Rows_Scan1 vals of
        Inl e \<Rightarrow> (tables, Some e)
      | Inr table \<Rightarrow> getTables_loop rest (tables @ [table]))"

definition getTables :: "db \<Rightarrow> string list \<Rightarrow> (string list \<times> error option) \<times> string list" where
  "getTables d log =
     (case db_Query d ''SHOW TABLES'' log of
        (Inl e, log') \<Rightarrow> (([], Some e), log')
      | (Inr r, log') \<Rightarrow>
          ((case getTables_loop (body r) [] of
              (tables, Some e) \<Rightarrow> (tables, Some e)
            | (tables, None) \<Rightarrow> (tables, map_option Driver_Error (rows_Err r))), log'))"

subsection \<open>createTableSQL (lines 154--167)\<close>

definition createTableSQL :: "db \<Rightarrow> string \<Rightarrow> string list \<Rightarrow> (error + string) \<times> string list" where
  "createTableSQL d name log =
     (case db_QueryRow_Scan d (''SHOW CREATE TABLE '' @ name) Rows_Scan2 log of
        (Inl e, log') \<Rightarrow> (Inl e, log')
      | (Inr (table_return, table_sql), log') \<Rightarrow>
          (if table_return \<noteq> name
           then (Inl (Errors_New ''Returned table is not the same as requested table''), log')
           else (Inr table_sql, log')))"

subsection \<open>createTableValues (lines 169--204)\<close>

text \<open>The tuple of one row (line 200): \<open>"('" + strings.Join(data, "','") + "')"\<close>.\<close>

definition row_tuple :: "string list \<Rightarrow> string" where
  "row_tuple data = ''('' @ SQ @ strings_Join data (SQ @ '','' @ SQ) @ SQ @ '')''"

text \<open>
  The loop of lines 188--201 over the rows that \<open>Next()\<close> delivers, with \<open>n\<close> the
  number of columns and \<open>data_text\<close> the tuples built so far.
\<close>

fun read_rows :: "nat \<Rightarrow> sqlval list list \<Rightarrow> string list \<Rightarrow> error + string list" where
  "read_rows n [] data_text = Inr data_text"
| "read_rows n (vals # rest) data_text =
     (case Rows_Scan n vals of
        Inl e \<Rightarrow> Inl e
      | Inr data \<Rightarrow> read_rows n rest (data_text @ [row_tuple data]))"

text \<open>
  Where the Go function returns a string beside a non-nil error (lines 173, 180, 183,
  198, 203), its caller drops the string (line 147): the model returns the error alone.
\<close>

definition createTableValues :: "db \<Rightarrow> string \<Rightarrow> string list \<Rightarrow> (error + string) \<times> string list" where
  "createTableValues d name log =
     (case db_Query d (''SELECT * FROM '' @ name) log of
        (Inl e, log') \<Rightarrow> (Inl e, log')
      | (Inr r, log') \<Rightarrow>
          ((case columns r of
              Inl m \<Rightarrow> Inl (Driver_Error m)
            | Inr cols \<Rightarrow>
                if length cols = 0
                then Inl (Errors_New (''No columns in table '' @ name @ ''.''))
                else (case read_rows (length cols) (body r) [] of
                        Inl e \<Rightarrow> Inl e
                      | Inr data_text \<Rightarrow>
                          (case rows_Err r of
                             Some m \<Rightarrow> Inl (Driver_Error m)
                           | None \<Rightarrow> Inr (strings_Join data_text '','')))), log'))"

subsection \<open>createTable (lines 139--152)\<close>

definition createTable :: "db \<Rightarrow> string \<Rightarrow> string list \<Rightarrow> (error + table) \<times> string list" where
  "createTable d name log =
     (case createTableSQL d name log of
        (Inl e, log1) \<Rightarrow> (Inl e, log1)
      | (Inr sql, log1) \<Rightarrow>
          (case createTableValues d name log1 of
             (Inl e, log2) \<Rightarrow> (Inl e, log2)
           | (Inr vals, log2) \<Rightarrow> (Inr \<lparr>Name = name, SQL = sql, Values = vals\<rparr>, log2)))"

subsection \<open>Dump (lines 54--108)\<close>

text \<open>
  The loop of lines 87--93: \<open>tables\<close> is \<open>data.Tables\<close> so far. It returns the error
  that ended it, if any, and \<open>data.Tables\<close> at that moment.
\<close>

fun Dump_loop ::
    "db \<Rightarrow> string list \<Rightarrow> table list \<Rightarrow> string list \<Rightarrow> error option \<times> table list \<times> string list" where
  "Dump_loop d [] tables log = (None, tables, log)"
| "Dump_loop d (name # rest) tables log =
     (case createTable d name log of
        (Inr t, log') \<Rightarrow> Dump_loop d rest (tables @ [t]) log'
      | (Inl e, log') \<Rightarrow> (Some e, tables, log'))"

text \<open>
  Lines 70--96: the local variable \<open>data\<close> from its construction to the completion
  stamp. The result is the error that ended the assembly, if any, with \<open>data\<close> as it
  is at that moment; \<open>done\<close> is what \<open>time.Now().String()\<close> gives at line 96.
\<close>

definition Dump_data :: "db \<Rightarrow> string \<Rightarrow> string list \<Rightarrow> (error option \<times> dump) \<times> string list" where
  "Dump_data d done log =
     (let data = \<lparr>DumpVersion = version, ServerVersion = [], Tables = [], CompleteTime = []\<rparr>
      in case getServerVersion d log of
           (Inl e, l1) \<Rightarrow> ((Some e, data), l1)
         | (Inr sv, l1) \<Rightarrow>
             (let data = data\<lparr>ServerVersion := sv\<rparr>
              in case getTables d l1 of
                   ((tables, Some e), l2) \<Rightarrow> ((Some e, data), l2)
                 | ((tables, None), l2) \<Rightarrow>
                     (case Dump_loop d tables (Tables data) l2 of
                        (Some e, ts, l3) \<Rightarrow> ((Some e, data\<lparr>Tables := ts\<rparr>), l3)
                      | (None, ts, l3) \<Rightarrow>
                          ((None, data\<lparr>Tables := ts, CompleteTime := done\<rparr>), l3))))"

text \<open>
  The \<open>Dumper\<close> is declared outside \<open>dump.go\<close>; these are the fields \<open>Dump\<close> reads.
\<close>

record Dumper =
  db :: db
  dir :: string
  format :: string

text \<open>
  What one run of \<open>Dump\<close> gets from the clock, the \<open>path\<close> package and the operating
  system: \<open>time.Now().Format(layout)\<close> at line 55, \<open>time.Now().String()\<close> at line 96,
  \<open>path.Join\<close> of two elements, the error of \<open>os.Create\<close> on a path (if it fails), and
  the failure of the write to the file (if it fails): how many bytes reached the file,
  and the error.
\<close>

record sys =
  time_Now_Format :: "string \<Rightarrow> string"
  time_Now_String :: string
  path_Join :: "string \<Rightarrow> string \<Rightarrow> string"
  os_Create_err :: "string \<Rightarrow> string option"
  write_err :: "(nat \<times> string) option"

text \<open>The state outside the program: the files on disk and the queries issued so far.\<close>

record world =
  fs :: "string \<rightharpoonup> string"
  qlog :: "string list"

text \<open>
  Modelled from the spec: \<open>exists\<close> is called at line 59 and defined outside
  \<open>dump.go\<close>. The spec's collision guard fails when the derived destination is already
  there: \<open>exists p\<close> holds when a file is at path \<open>p\<close>.
\<close>

definition exists :: "(string \<rightharpoonup> string) \<Rightarrow> string \<Rightarrow> bool" where
  "exists files p = (files p \<noteq> None)"

text \<open>The name (line 55) and the path (line 56) of the dump.\<close>

definition dump_name :: "Dumper \<Rightarrow> sys \<Rightarrow> string" where
  "dump_name d s = time_Now_Format s (format d)"

definition dump_path :: "Dumper \<Rightarrow> sys \<Rightarrow> string" where
  "dump_path d s = path_Join s (dir d) (dump_name d s @ ''.sql'')"

text \<open>
  \<open>Dump\<close>: the error it returns (\<open>None\<close> for \<open>nil\<close>) and the world it leaves.
  \<open>os.Create\<close> makes the file empty; \<open>Execute\<close> writes the rendered text to it, or a
  prefix of it when the write fails. The template is a constant that parses.
\<close>

definition Dump :: "Dumper \<Rightarrow> sys \<Rightarrow> world \<Rightarrow> error option \<times> world" where
  "Dump d s w =
     (let name = dump_name d s; p = dump_path d s
      in if exists (fs w) p
         then (Some (Errors_New (''Dump '' @ SQ @ name @ SQ @ '' already exists.'')), w)
         else (case os_Create_err s p of
                 Some m \<Rightarrow> (Some (Os_Error m), w)
               | None \<Rightarrow>
                   (let w1 = w\<lparr>fs := (fs w)(p \<mapsto> [])\<rparr>
                    in case Dump_data (db d) (time_Now_String s) (qlog w1) of
                         ((Some e, data), l) \<Rightarrow> (Some e, w1\<lparr>qlog := l\<rparr>)
                       | ((None, data), l) \<Rightarrow>
                           (case write_err s of
                              Some (k, m) \<Rightarrow>
                                (Some (Os_Error m),
                                 w1\<lparr>fs := (fs w1)(p \<mapsto> take k (tmpl_Execute data)), qlog := l\<rparr>)
                            | None \<Rightarrow>
                                (None, w1\<lparr>fs := (fs w1)(p \<mapsto> tmpl_Execute data), qlog := l\<rparr>)))))"

subsection \<open>The specification's words\<close>

text \<open>
  The specification's tuple for a row with values \<open>v1 .. vn\<close>: each value between
  single quotes, unchanged, the literals separated by commas, in parentheses.
\<close>

definition quote :: "string \<Rightarrow> string" where
  "quote v = SQ @ v @ SQ"

definition spec_tuple :: "string list \<Rightarrow> string" where
  "spec_tuple vs = ''('' @ strings_Join (map quote vs) '','' @ '')''"

text \<open>The errors of \<open>Scan\<close>.\<close>

definition scan_error :: "error \<Rightarrow> bool" where
  "scan_error e = (case e of Scan_Null i \<Rightarrow> True | Scan_Arity m k \<Rightarrow> True | _ \<Rightarrow> False)"

subsection \<open>Example environments\<close>

definition result_set :: "string list \<Rightarrow> sqlval list list \<Rightarrow> string + rows" where
  "result_set cols rs =
     Inr \<lparr>columns = Inr cols, body = rs, rows_Err = None, rows_Close = None\<rparr>"

text \<open>
  The specification's end-to-end scenario (tables \<open>users\<close> with two rows and \<open>logs\<close>
  with none), and four more tables that are not enumerated: \<open>ghost\<close>, whose creation
  statement comes back under another name, \<open>nocols\<close>, whose result has no column,
  \<open>notes\<close>, whose only value is NULL, and \<open>blanks\<close>, whose only value is the empty
  string.
\<close>

definition example_db :: db where
  "example_db q =
     (if q = ''SELECT version()'' then result_set [''version()''] [[SqlText ''8.0.36'']]
      else if q = ''SHOW TABLES''
        then result_set [''Tables_in_app''] [[SqlText ''users''], [SqlText ''logs'']]
      else if q = ''SHOW CREATE TABLE users''
        then result_set [''Table'', ''Create Table'']
               [[SqlText ''users'', SqlText ''CREATE TABLE users (id int, name text)'']]
      else if q = ''SELECT * FROM users''
        then result_set [''id'', ''name'']
               [[SqlText ''1'', SqlText ''alice''], [SqlText ''2'', SqlText ''bob'']]
      else if q = ''SHOW CREATE TABLE logs''
        then result_set [''Table'', ''Create Table'']
               [[SqlText ''logs'', SqlText ''CREATE TABLE logs (line text)'']]
      else if q = ''SELECT * FROM logs'' then result_set [''line''] []
      else if q = ''SHOW CREATE TABLE ghost''
        then result_set [''Table'', ''Create Table'']
               [[SqlText ''other'', SqlText ''CREATE TABLE other (x int)'']]
      else if q = ''SELECT * FROM nocols'' then result_set [] []
      else if q = ''SELECT * FROM notes'' then result_set [''body''] [[SqlNull]]
      else if q = ''SELECT * FROM blanks'' then result_set [''body''] [[SqlText []]]
      else Inl ''unknown query'')"

text \<open>The same source enumerating \<open>users\<close>, \<open>ghost\<close>, \<open>logs\<close>.\<close>

definition ghost_db :: db where
  "ghost_db q =
     (if q = ''SHOW TABLES''
      then result_set [''Tables_in_app'']
             [[SqlText ''users''], [SqlText ''ghost''], [SqlText ''logs'']]
      else example_db q)"

text \<open>The same source enumerating no table.\<close>

definition empty_db :: db where
  "empty_db q =
     (if q = ''SHOW TABLES'' then result_set [''Tables_in_app''] [] else example_db q)"

definition example_sys :: sys where
  "example_sys =
     \<lparr>time_Now_Format = (\<lambda>layout. ''20260102''),
      time_Now_String = ''2026-01-02 03:04:05 +0000 UTC'',
      path_Join = (\<lambda>a b. a @ ''/'' @ b),
      os_Create_err = (\<lambda>p. None),
      write_err = None\<rparr>"

definition example_Dumper :: "db \<Rightarrow> Dumper" where
  "example_Dumper d = \<lparr>db = d, dir = ''dumps'', format = ''20060102''\<rparr>"

definition empty_world :: world where
  "empty_world = \<lparr>fs = Map.empty, qlog = []\<rparr>"

text \<open>A world in which the destination of the example dump is already there.\<close>

definition taken_world :: world where
  "taken_world = \<lparr>fs = [''dumps/20260102.sql'' \<mapsto> ''-- an earlier dump''], qlog = []\<rparr>"

text \<open>
  A source with the tables \<open>people\<close> (an empty string in its second column) and
  \<open>notes\<close> (a NULL in the second column of its second row), both enumerated, the
  table \<open>quotes\<close>, whose row holds a single quote, a backslash and an empty string,
  and the table \<open>ghost\<close>, whose creation statement comes back under another name
  and is NULL.
\<close>

definition cells_db :: db where
  "cells_db q =
     (if q = ''SELECT version()'' then result_set [''version()''] [[SqlText ''8.0.36'']]
      else if q = ''SHOW TABLES''
        then result_set [''Tables_in_app''] [[SqlText ''people''], [SqlText ''notes'']]
      else if q = ''SHOW CREATE TABLE people''
        then result_set [''Table'', ''Create Table'']
               [[SqlText ''people'', SqlText ''CREATE TABLE people (id int, nick text)'']]
      else if q = ''SELECT * FROM people''
        then result_set [''id'', ''nick'']
               [[SqlText ''1'', SqlText []], [SqlText ''2'', SqlText ''bo'']]
      else if q = ''SHOW CREATE TABLE notes''
        then result_set [''Table'', ''Create Table'']
               [[SqlText ''notes'', SqlText ''CREATE TABLE notes (id int, body text)'']]
      else if q = ''SELECT * FROM notes''
        then result_set [''id'', ''body'']
               [[SqlText ''1'', SqlText ''x''], [SqlText ''2'', SqlNull]]
      else if q = ''SELECT * FROM quotes''
        then result_set [''a'', ''b'', ''c'']
               [[SqlText (''O'' @ SQ @ ''Brien''), SqlText [CHR 0x5C, CHR ''n''], SqlText []]]
      else if q = ''SHOW CREATE TABLE ghost''
        then result_set [''Table'', ''Create Table''] [[SqlText ''other'', SqlNull]]
      else Inl ''unknown query'')"

section \<open>Properties\<close>

subsection \<open>Scanning and the row loop\<close>

lemma scan_cols_text: "scan_cols (map SqlText ss) i = Inr ss"
  by (induction ss arbitrary: i) (simp_all add: convertAssign_def)

lemma scan_cols_null: "SqlNull \<in> set vals \<Longrightarrow> \<exists>j. scan_cols vals i = Inl (Scan_Null j)"
proof (induction vals arbitrary: i)
  case Nil
  then show ?case by simp
next
  case (Cons v vs)
  show ?case
  proof (cases v)
    case SqlNull
    then show ?thesis by (simp add: convertAssign_def)
  next
    case (SqlText s)
    with Cons.prems have "SqlNull \<in> set vs" by simp
    then obtain j where "scan_cols vs (Suc i) = Inl (Scan_Null j)"
      using Cons.IH by blast
    with SqlText show ?thesis by (simp add: convertAssign_def)
  qed
qed

lemma scan_cols_error: "scan_cols vals i = Inl e \<Longrightarrow> \<exists>j. e = Scan_Null j"
  by (induction vals arbitrary: i)
     (auto simp: convertAssign_def split: sqlval.splits sum.splits)

lemma Rows_Scan_text: "length ss = n \<Longrightarrow> Rows_Scan n (map SqlText ss) = Inr ss"
  by (simp add: Rows_Scan_def scan_cols_text)

lemma Rows_Scan_null:
  "SqlNull \<in> set vals \<Longrightarrow> \<exists>e. Rows_Scan n vals = Inl e"
  using scan_cols_null [of vals 0] by (auto simp: Rows_Scan_def)

lemma Rows_Scan_error: "Rows_Scan n vals = Inl e \<Longrightarrow> scan_error e"
  by (auto simp: Rows_Scan_def scan_error_def split: if_splits dest: scan_cols_error)

lemma read_rows_text:
  "\<forall>ss \<in> set tss. length ss = n \<Longrightarrow>
   read_rows n (map (map SqlText) tss) acc = Inr (acc @ map row_tuple tss)"
  by (induction tss arbitrary: acc) (simp_all add: Rows_Scan_text)

lemma read_rows_null:
  "vals \<in> set rs \<Longrightarrow> SqlNull \<in> set vals \<Longrightarrow> \<exists>e. read_rows n rs acc = Inl e"
proof (induction rs arbitrary: acc)
  case Nil
  then show ?case by simp
next
  case (Cons r rs)
  show ?case
  proof (cases "Rows_Scan n r")
    case (Inl e)
    then show ?thesis by simp
  next
    case (Inr data)
    with Cons.prems have "vals \<in> set rs"
      using Rows_Scan_null [of r n] by auto
    with Cons.IH Cons.prems(2) Inr show ?thesis by simp
  qed
qed

lemma read_rows_error: "read_rows n rs acc = Inl e \<Longrightarrow> scan_error e"
  by (induction rs arbitrary: acc) (auto split: sum.splits dest: Rows_Scan_error)

lemma join_quote:
  "vs \<noteq> [] \<Longrightarrow> SQ @ strings_Join vs (SQ @ '','' @ SQ) @ SQ = strings_Join (map quote vs) '',''"
  by (induction vs "SQ @ '','' @ SQ" rule: strings_Join.induct) (simp_all add: quote_def)

lemma row_tuple_spec: "vs \<noteq> [] \<Longrightarrow> row_tuple vs = spec_tuple vs"
  using join_quote [of vs] by (simp add: row_tuple_def spec_tuple_def)

lemma strings_Join_Nil_iff: "strings_Join xs sep = [] \<longleftrightarrow> (\<forall>x \<in> set xs. x = []) \<and> (sep = [] \<or> length xs \<le> 1)"
  by (induction xs sep rule: strings_Join.induct) auto

subsection \<open>The query log does not influence the results\<close>

lemma db_Query_eq: "db_Query d q log = (fst (db_Query d q []), log @ [q])"
  by (simp add: db_Query_def)

lemma db_QueryRow_Scan_eq:
  "db_QueryRow_Scan d q scan log = (fst (db_QueryRow_Scan d q scan []), log @ [q])"
  by (simp add: db_QueryRow_Scan_def db_Query_def split: sum.splits)

lemma getServerVersion_eq:
  "getServerVersion d log = (fst (getServerVersion d []), log @ [''SELECT version()''])"
  by (simp add: getServerVersion_def db_QueryRow_Scan_def db_Query_def split: sum.splits)

lemma getTables_eq:
  "getTables d log = (fst (getTables d []), log @ [''SHOW TABLES''])"
  by (simp add: getTables_def db_Query_def split: sum.splits prod.splits option.splits)

lemma createTableSQL_eq:
  "createTableSQL d name log =
     (fst (createTableSQL d name []), log @ [''SHOW CREATE TABLE '' @ name])"
  by (simp add: createTableSQL_def db_QueryRow_Scan_def db_Query_def
           split: sum.splits prod.splits)

lemma createTableValues_eq:
  "createTableValues d name log =
     (fst (createTableValues d name []), log @ [''SELECT * FROM '' @ name])"
  by (simp add: createTableValues_def db_Query_def split: sum.splits)

lemma createTable_cases:
  obtains (sql_fails) e l where "fst (createTableSQL d name []) = Inl e"
      and "createTable d name log = (Inl e, l)"
    | (values_fail) sql e l where "fst (createTableSQL d name []) = Inr sql"
      and "fst (createTableValues d name []) = Inl e"
      and "createTable d name log = (Inl e, l)"
    | (ok) sql vals l where "fst (createTableSQL d name []) = Inr sql"
      and "fst (createTableValues d name []) = Inr vals"
      and "createTable d name log = (Inr \<lparr>Name = name, SQL = sql, Values = vals\<rparr>, l)"
proof -
  define q1 where "q1 = ''SHOW CREATE TABLE '' @ name"
  define q2 where "q2 = ''SELECT * FROM '' @ name"
  define rs where "rs = fst (createTableSQL d name [])"
  define rv where "rv = fst (createTableValues d name [])"
  have s: "createTableSQL d name log = (rs, log @ [q1])"
    unfolding rs_def q1_def by (rule createTableSQL_eq)
  have v: "createTableValues d name (log @ [q1]) = (rv, (log @ [q1]) @ [q2])"
    unfolding rv_def q2_def by (rule createTableValues_eq)
  show thesis
  proof (cases rs)
    case (Inl e)
    then have "createTable d name log = (Inl e, log @ [q1])"
      by (simp add: createTable_def s)
    with Inl sql_fails show thesis by (simp add: rs_def)
  next
    case sql: (Inr sql)
    show thesis
    proof (cases rv)
      case (Inl e)
      with sql have "createTable d name log = (Inl e, (log @ [q1]) @ [q2])"
        by (simp add: createTable_def s v)
      with sql Inl values_fail show thesis by (simp add: rs_def rv_def)
    next
      case (Inr vals)
      with sql have "createTable d name log =
          (Inr \<lparr>Name = name, SQL = sql, Values = vals\<rparr>, (log @ [q1]) @ [q2])"
        by (simp add: createTable_def s v)
      with sql Inr ok show thesis by (simp add: rs_def rv_def)
    qed
  qed
qed

lemma createTable_fst: "fst (createTable d name log) = fst (createTable d name [])"
  by (cases rule: createTable_cases [of d name log];
      cases rule: createTable_cases [of d name "[]"]) simp_all

lemma createTable_Name: "fst (createTable d name log) = Inr t \<Longrightarrow> Name t = name"
  by (cases rule: createTable_cases [of d name log]) auto

lemma Dump_loop_append:
  "fst (Dump_loop d pre tables log) = None \<Longrightarrow>
   Dump_loop d (pre @ rest) tables log =
     Dump_loop d rest (fst (snd (Dump_loop d pre tables log)))
       (snd (snd (Dump_loop d pre tables log)))"
proof (induction pre arbitrary: tables log)
  case Nil
  then show ?case by simp
next
  case (Cons n pre)
  obtain r l where c: "createTable d n log = (r, l)" by (cases "createTable d n log")
  show ?case
  proof (cases r)
    case (Inl e)
    with c Cons.prems show ?thesis by simp
  next
    case (Inr t)
    with c Cons.prems Cons.IH [of "tables @ [t]" l] show ?thesis by simp
  qed
qed

lemma Dump_loop_success:
  "map (\<lambda>n. fst (createTable d n [])) pre = map Inr ts \<Longrightarrow>
   fst (Dump_loop d pre tables log) = None \<and>
   fst (snd (Dump_loop d pre tables log)) = tables @ ts"
proof (induction pre arbitrary: ts tables log)
  case Nil
  then show ?case by simp
next
  case (Cons n pre)
  from Cons.prems obtain t ts' where ts: "ts = t # ts'"
    and t: "fst (createTable d n []) = Inr t"
    and rest: "map (\<lambda>n. fst (createTable d n [])) pre = map Inr ts'"
    by (cases ts) auto
  obtain l where c: "createTable d n log = (Inr t, l)"
    using t createTable_fst [of d n log] by (cases "createTable d n log") simp
  from Cons.IH [OF rest, of "tables @ [t]" l] c ts show ?case by simp
qed

lemma Dump_loop_fail_now:
  "fst (createTable d name []) = Inl e \<Longrightarrow>
   Dump_loop d (name # post) tables log = (Some e, tables, snd (createTable d name log))"
  using createTable_fst [of d name log] by (cases "createTable d name log") simp

lemma Dump_loop_fst_log:
  "fst (Dump_loop d names tables log) = fst (Dump_loop d names tables [])"
proof (induction names arbitrary: tables log)
  case Nil
  then show ?case by simp
next
  case (Cons n names)
  obtain r l where c: "createTable d n log = (r, l)" by (cases "createTable d n log")
  obtain r0 l0 where c0: "createTable d n [] = (r0, l0)" by (cases "createTable d n []")
  have r: "r = r0" using createTable_fst [of d n log] c c0 by simp
  show ?case
  proof (cases r0)
    case (Inl e)
    with c c0 r show ?thesis by simp
  next
    case (Inr t)
    with c c0 r Cons.IH [of "tables @ [t]" l] Cons.IH [of "tables @ [t]" l0]
    show ?thesis by simp
  qed
qed

lemma Dump_loop_tables_log:
  "fst (snd (Dump_loop d names tables log)) = fst (snd (Dump_loop d names tables []))"
proof (induction names arbitrary: tables log)
  case Nil
  then show ?case by simp
next
  case (Cons n names)
  obtain r l where c: "createTable d n log = (r, l)" by (cases "createTable d n log")
  obtain r0 l0 where c0: "createTable d n [] = (r0, l0)" by (cases "createTable d n []")
  have r: "r = r0" using createTable_fst [of d n log] c c0 by simp
  show ?case
  proof (cases r0)
    case (Inl e)
    with c c0 r show ?thesis by simp
  next
    case (Inr t)
    with c c0 r Cons.IH [of "tables @ [t]" l] Cons.IH [of "tables @ [t]" l0]
    show ?thesis by simp
  qed
qed

text \<open>Every record the loop adds is the successful export of the table it names.\<close>

lemma Dump_loop_added:
  "t \<in> set (fst (snd (Dump_loop d names tables log))) \<Longrightarrow>
   t \<in> set tables \<or> fst (createTable d (Name t) []) = Inr t"
proof (induction names arbitrary: tables log)
  case Nil
  then show ?case by simp
next
  case (Cons n names)
  obtain r l where c: "createTable d n log = (r, l)" by (cases "createTable d n log")
  show ?case
  proof (cases r)
    case (Inl e)
    with c Cons.prems show ?thesis by simp
  next
    case (Inr u)
    have u: "fst (createTable d n []) = Inr u"
      using createTable_fst [of d n log] c Inr by simp
    then have "Name u = n"
      by (rule createTable_Name)
    with Cons.IH [of "tables @ [u]" l] Cons.prems c Inr u show ?thesis by auto
  qed
qed

subsection \<open>Row materialization\<close>

lemma createTableValues_fst:
  "d (''SELECT * FROM '' @ name) = Inr r \<Longrightarrow> columns r = Inr cols \<Longrightarrow> cols \<noteq> [] \<Longrightarrow>
   fst (createTableValues d name log) =
     (case read_rows (length cols) (body r) [] of
        Inl e \<Rightarrow> Inl e
      | Inr data_text \<Rightarrow>
          (case rows_Err r of
             Some m \<Rightarrow> Inl (Driver_Error m)
           | None \<Rightarrow> Inr (strings_Join data_text '','')))"
  by (simp add: createTableValues_def db_Query_def)

subsection \<open>The collision guard\<close>

text \<open>
  C3: when the derived destination path already exists, \<open>Dump\<close> returns the
  \<open>already exists\<close> error and leaves the world as it was: no query has been issued
  and no file has been created or written.
\<close>

theorem collision_fails_before_io:
  assumes "exists (fs w) (dump_path d s)"
  shows "Dump d s w =
           (Some (Errors_New (''Dump '' @ SQ @ dump_name d s @ SQ @ '' already exists.'')), w)"
  using assms by (simp add: Dump_def)

theorem collision_fails_before_io_witness:
  "Dump (example_Dumper example_db) example_sys taken_world =
     (Some (Errors_New (''Dump '' @ SQ @ ''20260102'' @ SQ @ '' already exists.'')), taken_world)"
  using collision_fails_before_io [of taken_world "example_Dumper example_db" example_sys]
  by (simp add: exists_def taken_world_def dump_path_def dump_name_def example_sys_def
        example_Dumper_def)

subsection \<open>Tables without columns, tables without rows, tables with rows\<close>

lemma scan_error_not_New: "scan_error e \<Longrightarrow> e \<noteq> Errors_New m"
  by (auto simp: scan_error_def)

lemma createTableValues_empty:
  assumes "d (''SELECT * FROM '' @ name) = Inr r" and "columns r = Inr cols" and "cols \<noteq> []"
    and "body r = []" and "rows_Err r = None"
  shows "fst (createTableValues d name log) = Inr []"
  using assms(4,5) by (simp add: createTableValues_fst [of d name r cols, OF assms(1-3)])

text \<open>
  C4: \<open>createTableValues\<close> returns the \<open>No columns\<close> error exactly when the
  \<open>SELECT *\<close> of the table succeeds and reports zero columns; and a table that has
  columns and whose result set ends without a row and without an error gives the empty
  values clause, not an error.
\<close>

theorem no_columns_error_iff_zero_columns:
  "(fst (createTableValues d name log) =
      Inl (Errors_New (''No columns in table '' @ name @ ''.'')) \<longleftrightarrow>
    (\<exists>r. d (''SELECT * FROM '' @ name) = Inr r \<and> columns r = Inr [])) \<and>
   (\<forall>r cols. d (''SELECT * FROM '' @ name) = Inr r \<and> columns r = Inr cols \<and> cols \<noteq> [] \<and>
       body r = [] \<and> rows_Err r = None \<longrightarrow>
       fst (createTableValues d name log) = Inr [])"
proof (intro conjI allI impI)
  show "fst (createTableValues d name log) =
      Inl (Errors_New (''No columns in table '' @ name @ ''.'')) \<longleftrightarrow>
    (\<exists>r. d (''SELECT * FROM '' @ name) = Inr r \<and> columns r = Inr [])"
  proof (cases "d (''SELECT * FROM '' @ name)")
    case (Inl m)
    then show ?thesis by (simp add: createTableValues_def db_Query_def)
  next
    case r: (Inr r)
    show ?thesis
    proof (cases "columns r")
      case (Inl m)
      with r show ?thesis by (simp add: createTableValues_def db_Query_def)
    next
      case (Inr cols)
      show ?thesis
      proof (cases "cols = []")
        case True
        with r Inr show ?thesis by (simp add: createTableValues_def db_Query_def)
      next
        case False
        have "fst (createTableValues d name log) \<noteq>
            Inl (Errors_New (''No columns in table '' @ name @ ''.''))"
          using read_rows_error [of "length cols" "body r" "[]"]
          by (auto simp: createTableValues_fst [of d name r cols, OF r Inr False]
                split: sum.splits option.splits dest: scan_error_not_New)
        with r Inr False show ?thesis by simp
      qed
    qed
  qed
next
  fix r cols
  assume "d (''SELECT * FROM '' @ name) = Inr r \<and> columns r = Inr cols \<and> cols \<noteq> [] \<and>
       body r = [] \<and> rows_Err r = None"
  then show "fst (createTableValues d name log) = Inr []"
    using createTableValues_empty by blast
qed

text \<open>The table \<open>nocols\<close> of the example source fails, the empty table \<open>logs\<close> does not.\<close>

theorem no_columns_error_iff_zero_columns_witness:
  "fst (createTableValues example_db ''nocols'' []) =
     Inl (Errors_New ''No columns in table nocols.'') \<and>
   fst (createTableValues example_db ''logs'' []) = Inr []"
  using no_columns_error_iff_zero_columns [of example_db "''nocols''" "[]"]
        no_columns_error_iff_zero_columns [of example_db "''logs''" "[]"]
  by (simp add: example_db_def result_set_def)

lemma createTableValues_text:
  assumes "d (''SELECT * FROM '' @ name) = Inr r" and "columns r = Inr cols" and "cols \<noteq> []"
    and "body r = map (map SqlText) tss"
    and "\<forall>ss \<in> set tss. length ss = length cols"
    and "rows_Err r = None"
  shows "fst (createTableValues d name log) = Inr (strings_Join (map spec_tuple tss) '','')"
proof -
  have "\<forall>ss \<in> set tss. ss \<noteq> []"
    using assms(3,5) by auto
  then have m: "map row_tuple tss = map spec_tuple tss"
    by (simp add: row_tuple_spec)
  have "read_rows (length cols) (body r) [] = Inr (map spec_tuple tss)"
    using read_rows_text [OF assms(5), of "[]"] assms(4) m by simp
  then show ?thesis
    using assms(6) by (simp add: createTableValues_fst [of d name r cols, OF assms(1-3)])
qed

lemma spec_tuple_not_Nil: "spec_tuple vs \<noteq> []"
  by (simp add: spec_tuple_def)

lemma join_tuples_not_Nil: "tss \<noteq> [] \<Longrightarrow> strings_Join (map spec_tuple tss) sep \<noteq> []"
  by (cases tss) (auto simp: strings_Join_Nil_iff spec_tuple_not_Nil)

subsection \<open>The assembly of the document\<close>

lemma Dump_data_version_fails:
  assumes "fst (getServerVersion d []) = Inl e"
  shows "fst (Dump_data d done log) =
           (Some e, \<lparr>DumpVersion = version, ServerVersion = [], Tables = [], CompleteTime = []\<rparr>)"
proof -
  define l1 where "l1 = log @ [''SELECT version()'']"
  have "getServerVersion d log = (Inl e, l1)"
    unfolding l1_def using getServerVersion_eq [of d log] assms by simp
  then show ?thesis by (simp add: Dump_data_def)
qed

lemma Dump_data_tables_fail:
  assumes "fst (getServerVersion d []) = Inr sv" and "fst (getTables d []) = (tables, Some e)"
  shows "fst (Dump_data d done log) =
           (Some e, \<lparr>DumpVersion = version, ServerVersion = sv, Tables = [], CompleteTime = []\<rparr>)"
proof -
  define l1 where "l1 = log @ [''SELECT version()'']"
  define l2 where "l2 = l1 @ [''SHOW TABLES'']"
  have v: "getServerVersion d log = (Inr sv, l1)"
    unfolding l1_def using getServerVersion_eq [of d log] assms(1) by simp
  have t: "getTables d l1 = ((tables, Some e), l2)"
    unfolding l2_def using getTables_eq [of d l1] assms(2) by simp
  show ?thesis by (simp add: Dump_data_def v t)
qed

lemma Dump_data_loop:
  assumes "fst (getServerVersion d []) = Inr sv" and "fst (getTables d []) = (tables, None)"
  shows "fst (Dump_data d done log) =
           (case fst (Dump_loop d tables [] []) of
              Some e \<Rightarrow>
                (Some e, \<lparr>DumpVersion = version, ServerVersion = sv,
                           Tables = fst (snd (Dump_loop d tables [] [])), CompleteTime = []\<rparr>)
            | None \<Rightarrow>
                (None, \<lparr>DumpVersion = version, ServerVersion = sv,
                         Tables = fst (snd (Dump_loop d tables [] [])), CompleteTime = done\<rparr>))"
proof -
  define l1 where "l1 = log @ [''SELECT version()'']"
  define l2 where "l2 = l1 @ [''SHOW TABLES'']"
  have v: "getServerVersion d log = (Inr sv, l1)"
    unfolding l1_def using getServerVersion_eq [of d log] assms(1) by simp
  have t: "getTables d l1 = ((tables, None), l2)"
    unfolding l2_def using getTables_eq [of d l1] assms(2) by simp
  obtain eo ts l3 where dl: "Dump_loop d tables [] l2 = (eo, ts, l3)"
    by (cases "Dump_loop d tables [] l2")
  have eo: "fst (Dump_loop d tables [] []) = eo"
    using Dump_loop_fst_log [of d tables "[]" l2] dl by simp
  have ts: "fst (snd (Dump_loop d tables [] [])) = ts"
    using Dump_loop_tables_log [of d tables "[]" l2] dl by simp
  show ?thesis
    by (cases eo) (simp_all add: Dump_data_def v t dl eo ts)
qed

lemma Dump_data_Tables:
  "\<exists>names l. Tables (snd (fst (Dump_data d done log))) = fst (snd (Dump_loop d names [] l))"
proof (cases "fst (getServerVersion d [])")
  case (Inl e)
  have "Tables (snd (fst (Dump_data d done log))) = fst (snd (Dump_loop d [] [] []))"
    by (simp add: Dump_data_version_fails [OF Inl])
  then show ?thesis by blast
next
  case sv: (Inr sv)
  obtain tables eo where t: "fst (getTables d []) = (tables, eo)"
    by (cases "fst (getTables d [])")
  show ?thesis
  proof (cases eo)
    case None
    have "Tables (snd (fst (Dump_data d done log))) = fst (snd (Dump_loop d tables [] []))"
      using Dump_data_loop [OF sv t [unfolded None], of "done" log]
      by (cases "fst (Dump_loop d tables [] [])") simp_all
    then show ?thesis by blast
  next
    case (Some e)
    have "Tables (snd (fst (Dump_data d done log))) = fst (snd (Dump_loop d [] [] []))"
      by (simp add: Dump_data_tables_fail [OF sv t [unfolded Some]])
    then show ?thesis by blast
  qed
qed

lemma Dump_data_unstamped:
  "fst (fst (Dump_data d done log)) = Some e \<Longrightarrow>
   CompleteTime (snd (fst (Dump_data d done log))) = []"
proof (cases "fst (getServerVersion d [])")
  case (Inl e')
  then show ?thesis by (simp add: Dump_data_version_fails)
next
  case sv: (Inr sv)
  assume f: "fst (fst (Dump_data d done log)) = Some e"
  obtain tables eo where t: "fst (getTables d []) = (tables, eo)"
    by (cases "fst (getTables d [])")
  show ?thesis
  proof (cases eo)
    case None
    show ?thesis
      using f Dump_data_loop [OF sv t [unfolded None], of "done" log]
      by (cases "fst (Dump_loop d tables [] [])") simp_all
  next
    case (Some e')
    show ?thesis
      by (simp add: Dump_data_tables_fail [OF sv t [unfolded Some]])
  qed
qed

text \<open>The guard of lines 59--61.\<close>

lemma collision_guard:
  "exists (fs w) (dump_path d s) \<Longrightarrow>
   Dump d s w =
     (Some (Errors_New (''Dump '' @ SQ @ dump_name d s @ SQ @ '' already exists.'')), w)"
  by (simp add: Dump_def)

text \<open>When the assembly fails after the file was created, \<open>Dump\<close> stops there.\<close>

lemma Dump_assembly_fails:
  assumes "\<not> exists (fs w) (dump_path d s)" and "os_Create_err s (dump_path d s) = None"
    and "fst (fst (Dump_data (db d) (time_Now_String s) (qlog w))) = Some e"
  shows "fst (Dump d s w) = Some e \<and> fs (snd (Dump d s w)) = (fs w)(dump_path d s \<mapsto> [])"
proof -
  obtain data l where "Dump_data (db d) (time_Now_String s) (qlog w) = ((Some e, data), l)"
    using assms(3) by (cases "Dump_data (db d) (time_Now_String s) (qlog w)") auto
  then show ?thesis
    using assms(1,2) by (simp add: Dump_def Let_def)
qed

text \<open>When the assembly succeeds and the write does, the file holds the rendered document.\<close>

lemma Dump_renders:
  assumes "\<not> exists (fs w) (dump_path d s)" and "os_Create_err s (dump_path d s) = None"
    and "fst (Dump_data (db d) (time_Now_String s) (qlog w)) = (None, data)"
    and "write_err s = None"
  shows "fst (Dump d s w) = None \<and>
         fs (snd (Dump d s w)) = (fs w)(dump_path d s \<mapsto> tmpl_Execute data)"
proof -
  obtain l where "Dump_data (db d) (time_Now_String s) (qlog w) = ((None, data), l)"
    using assms(3) by (cases "Dump_data (db d) (time_Now_String s) (qlog w)") auto
  then show ?thesis
    using assms(1,2,4) by (simp add: Dump_def Let_def)
qed

subsection \<open>Failing tables\<close>

lemma createTable_fails_not_added:
  assumes "fst (createTable d name []) = Inl e"
  shows "name \<notin> Name ` set (fst (snd (Dump_loop d names [] log)))"
proof
  assume "name \<in> Name ` set (fst (snd (Dump_loop d names [] log)))"
  then obtain t where t: "t \<in> set (fst (snd (Dump_loop d names [] log)))" and n: "Name t = name"
    by auto
  from Dump_loop_added [OF t] have "fst (createTable d (Name t) []) = Inr t" by simp
  with n assms show False by simp
qed

text \<open>
  C6: let the tables enumerated be \<open>pre\<close>, then \<open>name\<close>, then \<open>post\<close>, where every
  table of \<open>pre\<close> is exported (giving the records \<open>ts\<close>) and the export of \<open>name\<close>
  fails with \<open>e\<close>. Then the loop of \<open>Dump\<close> ends at \<open>name\<close> with the error \<open>e\<close>: the
  tables after it play no part, and \<open>data.Tables\<close> is \<open>ts\<close>, with no record for
  \<open>name\<close> or a later table. The assembly ends with \<open>e\<close> and a document whose
  completion time is not set, and \<open>Dump\<close> returns \<open>e\<close>. In every run, the completion
  time is set only if the assembly ends without an error.
\<close>

theorem first_failing_table_aborts_dump:
  assumes "map (\<lambda>n. fst (createTable d n [])) pre = map Inr ts"
    and "fst (createTable d name []) = Inl e"
  shows "Dump_loop d (pre @ name # post) [] log = Dump_loop d (pre @ [name]) [] log \<and>
         fst (Dump_loop d (pre @ name # post) [] log) = Some e \<and>
         fst (snd (Dump_loop d (pre @ name # post) [] log)) = ts \<and>
         (fst (getServerVersion d []) = Inr sv \<and>
          fst (getTables d []) = (pre @ name # post, None) \<longrightarrow>
            fst (Dump_data d done log) =
              (Some e, \<lparr>DumpVersion = version, ServerVersion = sv, Tables = ts,
                         CompleteTime = []\<rparr>) \<and>
            (\<forall>D s w. db D = d \<and> \<not> exists (fs w) (dump_path D s) \<and>
                os_Create_err s (dump_path D s) = None \<longrightarrow> fst (Dump D s w) = Some e)) \<and>
         (\<forall>d' done' log' e'. fst (fst (Dump_data d' done' log')) = Some e' \<longrightarrow>
            CompleteTime (snd (fst (Dump_data d' done' log'))) = [])"
proof -
  have ok: "fst (Dump_loop d pre [] log) = None"
    and tables: "fst (snd (Dump_loop d pre [] log)) = ts"
    using Dump_loop_success [OF assms(1), of "[]" log] by simp_all
  define l where "l = snd (snd (Dump_loop d pre [] log))"
  have split: "\<And>rest. Dump_loop d (pre @ rest) [] log = Dump_loop d rest ts l"
    using Dump_loop_append [OF ok] tables by (simp add: l_def)
  have stop: "\<And>rest. Dump_loop d (name # rest) ts l = (Some e, ts, snd (createTable d name l))"
    using assms(2) by (rule Dump_loop_fail_now)
  have 1: "Dump_loop d (pre @ name # post) [] log = Dump_loop d (pre @ [name]) [] log"
    by (simp only: split stop)
  have 2: "fst (Dump_loop d (pre @ name # post) [] log) = Some e"
    by (simp only: split stop fst_conv)
  have 3: "fst (snd (Dump_loop d (pre @ name # post) [] log)) = ts"
    by (simp only: split stop fst_conv snd_conv)
  have 4: "fst (Dump_data d done log) =
        (Some e, \<lparr>DumpVersion = version, ServerVersion = sv, Tables = ts, CompleteTime = []\<rparr>)"
    if "fst (getServerVersion d []) = Inr sv"
      and "fst (getTables d []) = (pre @ name # post, None)"
    using Dump_data_loop [OF that, of "done" log] 2 [unfolded Dump_loop_fst_log [of _ _ _ log]]
      3 [unfolded Dump_loop_tables_log [of _ _ _ log]]
    by simp
  have 5: "fst (Dump D s w) = Some e"
    if "fst (getServerVersion d []) = Inr sv"
      and "fst (getTables d []) = (pre @ name # post, None)"
      and "db D = d" and "\<not> exists (fs w) (dump_path D s)"
      and "os_Create_err s (dump_path D s) = None" for D s w
  proof -
    have "fst (Dump_data d (time_Now_String s) (qlog w)) =
        (Some e, \<lparr>DumpVersion = version, ServerVersion = sv, Tables = ts, CompleteTime = []\<rparr>)"
      using Dump_data_loop [OF that(1,2), of "time_Now_String s" "qlog w"]
        2 [unfolded Dump_loop_fst_log [of _ _ _ log]]
        3 [unfolded Dump_loop_tables_log [of _ _ _ log]]
      by simp
    then have "fst (fst (Dump_data (db D) (time_Now_String s) (qlog w))) = Some e"
      using that(3) by simp
    with that(4,5) show ?thesis using Dump_assembly_fails by blast
  qed
  have 6: "\<forall>d' done' log' e'. fst (fst (Dump_data d' done' log')) = Some e' \<longrightarrow>
            CompleteTime (snd (fst (Dump_data d' done' log'))) = []"
    using Dump_data_unstamped by blast
  from 1 2 3 4 5 6 show ?thesis by blast
qed


lemmas run_defs =
  createTable_def createTableSQL_def createTableValues_def db_QueryRow_Scan_def db_Query_def
  Rows_Scan_def Rows_Scan1_def Rows_Scan2_def convertAssign_def getServerVersion_def
  getTables_def result_set_def

text \<open>
  The source that enumerates \<open>users\<close>, \<open>ghost\<close>, \<open>logs\<close>: the dump ends at \<open>ghost\<close>
  with the record of \<open>users\<close> only.
\<close>

theorem first_failing_table_aborts_dump_witness:
  "fst (Dump_loop ghost_db [''users'', ''ghost'', ''logs''] [] []) =
     Some (Errors_New ''Returned table is not the same as requested table'') \<and>
   map Name (fst (snd (Dump_loop ghost_db [''users'', ''ghost'', ''logs''] [] []))) = [''users''] \<and>
   fst (Dump (example_Dumper ghost_db) example_sys empty_world) =
     Some (Errors_New ''Returned table is not the same as requested table'')"
proof -
  let ?users = "\<lparr>Name = ''users'', SQL = ''CREATE TABLE users (id int, name text)'',
      Values = row_tuple [''1'', ''alice''] @ '','' @ row_tuple [''2'', ''bob'']\<rparr>"
  let ?e = "Errors_New ''Returned table is not the same as requested table''"
  have pre: "map (\<lambda>n. fst (createTable ghost_db n [])) [''users''] = map Inr [?users]"
    by (simp add: run_defs ghost_db_def example_db_def)
  have bad: "fst (createTable ghost_db ''ghost'' []) = Inl ?e"
    by (simp add: run_defs ghost_db_def example_db_def)
  have sv: "fst (getServerVersion ghost_db []) = Inr ''8.0.36''"
    by (simp add: run_defs ghost_db_def example_db_def)
  have tb: "fst (getTables ghost_db []) = ([''users''] @ ''ghost'' # [''logs''], None)"
    by (simp add: run_defs ghost_db_def example_db_def)
  have env: "db (example_Dumper ghost_db) = ghost_db \<and>
      \<not> exists (fs empty_world) (dump_path (example_Dumper ghost_db) example_sys) \<and>
      os_Create_err example_sys (dump_path (example_Dumper ghost_db) example_sys) = None"
    by (simp add: example_Dumper_def exists_def empty_world_def example_sys_def)
  from first_failing_table_aborts_dump
         [OF pre bad, of "[''logs'']" "[]" "''8.0.36''" "''now''"] sv tb env
  show ?thesis by auto
qed

subsection \<open>The destination file\<close>

text \<open>
  C9: in a run of \<open>Dump\<close> that creates the destination file and in which a step of
  the assembly then fails with \<open>e\<close> (the server-version query, the enumeration of the
  tables, or the export of a table), \<open>Dump\<close> returns \<open>e\<close>, the file system differs
  from the one before only in the destination file, which is there and empty: nothing
  was written and the file is not removed. A second \<open>Dump\<close> with the same directory,
  format and clock reading, started in the world the first one left, returns the
  \<open>already exists\<close> error and changes nothing.
\<close>

theorem failed_assembly_leaves_empty_file:
  assumes "\<not> exists (fs w) (dump_path d s)" and "os_Create_err s (dump_path d s) = None"
    and "fst (getServerVersion (db d) []) = Inl e \<or>
         (\<exists>sv tables. fst (getServerVersion (db d) []) = Inr sv \<and>
            fst (getTables (db d) []) = (tables, Some e)) \<or>
         (\<exists>sv tables. fst (getServerVersion (db d) []) = Inr sv \<and>
            fst (getTables (db d) []) = (tables, None) \<and>
            fst (Dump_loop (db d) tables [] []) = Some e)"
    and "dir d' = dir d" and "format d' = format d"
  shows "fst (Dump d s w) = Some e \<and>
         fs (snd (Dump d s w)) = (fs w)(dump_path d s \<mapsto> []) \<and>
         Dump d' s (snd (Dump d s w)) =
           (Some (Errors_New (''Dump '' @ SQ @ dump_name d s @ SQ @ '' already exists.'')),
            snd (Dump d s w))"
proof -
  have "fst (fst (Dump_data (db d) (time_Now_String s) (qlog w))) = Some e"
    using assms(3)
  proof (elim disjE exE conjE)
    assume "fst (getServerVersion (db d) []) = Inl e"
    then show ?thesis by (simp add: Dump_data_version_fails)
  next
    fix sv tables
    assume "fst (getServerVersion (db d) []) = Inr sv"
      and "fst (getTables (db d) []) = (tables, Some e)"
    then show ?thesis by (simp add: Dump_data_tables_fail)
  next
    fix sv tables
    assume "fst (getServerVersion (db d) []) = Inr sv"
      and "fst (getTables (db d) []) = (tables, None)"
      and "fst (Dump_loop (db d) tables [] []) = Some e"
    then show ?thesis by (simp add: Dump_data_loop)
  qed
  with assms(1,2) have r: "fst (Dump d s w) = Some e"
    and f: "fs (snd (Dump d s w)) = (fs w)(dump_path d s \<mapsto> [])"
    using Dump_assembly_fails by blast+
  have n: "dump_name d' s = dump_name d s" and p: "dump_path d' s = dump_path d s"
    using assms(4,5) by (simp_all add: dump_path_def dump_name_def)
  have "exists (fs (snd (Dump d s w))) (dump_path d' s)"
    by (simp add: f p exists_def)
  then have "Dump d' s (snd (Dump d s w)) =
      (Some (Errors_New (''Dump '' @ SQ @ dump_name d' s @ SQ @ '' already exists.'')),
       snd (Dump d s w))"
    by (rule collision_guard)
  with r f n show ?thesis by simp
qed

text \<open>
  The run on the source that enumerates \<open>users\<close>, \<open>ghost\<close>, \<open>logs\<close> leaves the empty
  file \<open>dumps/20260102.sql\<close>, and the retry on the sound source fails.
\<close>

theorem failed_assembly_leaves_empty_file_witness:
  "fst (Dump (example_Dumper ghost_db) example_sys empty_world) =
     Some (Errors_New ''Returned table is not the same as requested table'') \<and>
   fs (snd (Dump (example_Dumper ghost_db) example_sys empty_world)) ''dumps/20260102.sql'' =
     Some [] \<and>
   fst (Dump (example_Dumper example_db) example_sys
          (snd (Dump (example_Dumper ghost_db) example_sys empty_world))) =
     Some (Errors_New (''Dump '' @ SQ @ ''20260102'' @ SQ @ '' already exists.''))"
proof -
  let ?e = "Errors_New ''Returned table is not the same as requested table''"
  have env: "\<not> exists (fs empty_world) (dump_path (example_Dumper ghost_db) example_sys)"
    "os_Create_err example_sys (dump_path (example_Dumper ghost_db) example_sys) = None"
    by (simp_all add: example_Dumper_def exists_def empty_world_def example_sys_def)
  have "fst (getServerVersion ghost_db []) = Inr ''8.0.36''"
    and "fst (getTables ghost_db []) = ([''users'', ''ghost'', ''logs''], None)"
    and "fst (Dump_loop ghost_db [''users'', ''ghost'', ''logs''] [] []) = Some ?e"
    by (simp_all add: run_defs ghost_db_def example_db_def)
  then have fails: "fst (getServerVersion (db (example_Dumper ghost_db)) []) = Inl ?e \<or>
         (\<exists>sv tables. fst (getServerVersion (db (example_Dumper ghost_db)) []) = Inr sv \<and>
            fst (getTables (db (example_Dumper ghost_db)) []) = (tables, Some ?e)) \<or>
         (\<exists>sv tables. fst (getServerVersion (db (example_Dumper ghost_db)) []) = Inr sv \<and>
            fst (getTables (db (example_Dumper ghost_db)) []) = (tables, None) \<and>
            fst (Dump_loop (db (example_Dumper ghost_db)) tables [] []) = Some ?e)"
    by (simp add: example_Dumper_def)
  have same: "dir (example_Dumper example_db) = dir (example_Dumper ghost_db)"
    "format (example_Dumper example_db) = format (example_Dumper ghost_db)"
    by (simp_all add: example_Dumper_def)
  from failed_assembly_leaves_empty_file [OF env fails same]
  show ?thesis
    by (simp add: dump_path_def dump_name_def example_Dumper_def example_sys_def)
qed

text \<open>
  C10: when the destination is free and can be created, the server version is read,
  the enumeration of the tables succeeds with no table, and the write to the file
  succeeds, \<open>Dump\<close> returns no error and the file holds the header (tool version
  \<open>0.1.0\<close>, server version) followed by the completion comment, and nothing else.
\<close>

theorem no_tables_is_a_successful_dump:
  assumes "\<not> exists (fs w) (dump_path d s)" and "os_Create_err s (dump_path d s) = None"
    and "fst (getServerVersion (db d) []) = Inr sv"
    and "fst (getTables (db d) []) = ([], None)"
    and "write_err s = None"
  shows "fst (Dump d s w) = None \<and>
         fs (snd (Dump d s w)) (dump_path d s) =
           Some (''-- Go SQL Dump 0.1.0'' @ NL @
                 ''--'' @ NL @
                 ''-- ------------------------------------------------------'' @ NL @
                 ''-- Server version'' @ TAB @ sv @ NL @
                 NL @
                 NL @
                 NL @ ''-- Dump completed on '' @ time_Now_String s @ NL)"
proof -
  let ?data = "\<lparr>DumpVersion = version, ServerVersion = sv, Tables = [],
      CompleteTime = time_Now_String s\<rparr>"
  have "fst (Dump_data (db d) (time_Now_String s) (qlog w)) = (None, ?data)"
    using Dump_data_loop [OF assms(3,4), of "time_Now_String s" "qlog w"] by simp
  from Dump_renders [OF assms(1,2) this assms(5)]
  show ?thesis
    by (simp add: tmpl_Execute_def tmpl_header_def tmpl_footer_def version_def)
qed

theorem no_tables_is_a_successful_dump_witness:
  "fst (Dump (example_Dumper empty_db) example_sys empty_world) = None \<and>
   fs (snd (Dump (example_Dumper empty_db) example_sys empty_world)) ''dumps/20260102.sql'' =
     Some (''-- Go SQL Dump 0.1.0'' @ NL @
           ''--'' @ NL @
           ''-- ------------------------------------------------------'' @ NL @
           ''-- Server version'' @ TAB @ ''8.0.36'' @ NL @
           NL @
           NL @
           NL @ ''-- Dump completed on 2026-01-02 03:04:05 +0000 UTC'' @ NL)"
proof -
  have env: "\<not> exists (fs empty_world) (dump_path (example_Dumper empty_db) example_sys)"
    "os_Create_err example_sys (dump_path (example_Dumper empty_db) example_sys) = None"
    by (simp_all add: example_Dumper_def exists_def empty_world_def example_sys_def)
  have sv: "fst (getServerVersion (db (example_Dumper empty_db)) []) = Inr ''8.0.36''"
    and tb: "fst (getTables (db (example_Dumper empty_db)) []) = ([], None)"
    by (simp_all add: run_defs example_Dumper_def empty_db_def example_db_def)
  have wr: "write_err example_sys = None"
    by (simp add: example_sys_def)
  from no_tables_is_a_successful_dump [OF env sv tb wr]
  show ?thesis
    by (simp add: dump_path_def dump_name_def example_Dumper_def example_sys_def)
qed

subsection \<open>The first NULL of a result set\<close>

lemma scan_cols_first_null:
  "scan_cols (map SqlText ts @ SqlNull # vs) i = Inl (Scan_Null (i + length ts))"
  by (induction ts arbitrary: i) (simp_all add: convertAssign_def)

lemma scan_cols_error_bound:
  "scan_cols vals i = Inl e \<Longrightarrow> \<exists>j. e = Scan_Null j \<and> i \<le> j \<and> j < i + length vals"
proof (induction vals arbitrary: i)
  case Nil
  then show ?case by simp
next
  case (Cons v vs)
  show ?case
  proof (cases v)
    case SqlNull
    with Cons.prems show ?thesis by (auto simp: convertAssign_def)
  next
    case (SqlText s)
    with Cons.prems have "scan_cols vs (Suc i) = Inl e"
      by (auto simp: convertAssign_def split: sum.splits)
    from Cons.IH [OF this] show ?thesis by auto
  qed
qed

lemma Rows_Scan_first_null:
  "length ts + Suc (length vs) = n \<Longrightarrow>
   Rows_Scan n (map SqlText ts @ SqlNull # vs) = Inl (Scan_Null (length ts))"
  by (auto simp: Rows_Scan_def scan_cols_first_null)

lemma Rows_Scan_error_bound:
  "length vals = n \<Longrightarrow> Rows_Scan n vals = Inl e \<Longrightarrow> \<exists>j<n. e = Scan_Null j"
  using scan_cols_error_bound [of vals 0 e] by (auto simp: Rows_Scan_def)

lemma read_rows_prefix:
  "\<forall>ss \<in> set tss. length ss = n \<Longrightarrow>
   read_rows n (map (map SqlText) tss @ rest) acc = read_rows n rest (acc @ map row_tuple tss)"
  by (induction tss arbitrary: acc) (simp_all add: Rows_Scan_text)

lemma read_rows_first_null:
  "\<forall>ss \<in> set tss. length ss = n \<Longrightarrow> length ts + Suc (length vs) = n \<Longrightarrow>
   read_rows n (map (map SqlText) tss @ (map SqlText ts @ SqlNull # vs) # rest) acc =
     Inl (Scan_Null (length ts))"
  by (simp add: read_rows_prefix Rows_Scan_first_null)

lemma read_rows_error_bound:
  "\<forall>vals \<in> set rs. length vals = n \<Longrightarrow> read_rows n rs acc = Inl e \<Longrightarrow>
   \<exists>j<n. e = Scan_Null j"
proof (induction rs arbitrary: acc)
  case Nil
  then show ?case by simp
next
  case (Cons r rs)
  show ?case
  proof (cases "Rows_Scan n r")
    case (Inl e')
    with Cons.prems show ?thesis
      using Rows_Scan_error_bound [of r n e'] by simp
  next
    case (Inr data)
    with Cons.prems Cons.IH [of "acc @ [row_tuple data]"] show ?thesis by simp
  qed
qed


subsection \<open>NULL, the empty string and the tuples of the rows\<close>

text \<open>
  C1, as stated, fails: in the example source, the table \<open>notes\<close> holds one NULL and
  the table \<open>blanks\<close> one empty string. The first is not materialized (the scan of
  its row fails on column 0), the second gives the tuple \<open>('')\<close>: the two values are
  not encoded identically.
\<close>

theorem null_is_not_empty_string_counterexample:
  "fst (createTableValues example_db ''notes'' []) = Inl (Scan_Null 0) \<and>
   fst (createTableValues example_db ''blanks'' []) = Inr (''('' @ SQ @ SQ @ '')'') \<and>
   fst (createTableValues example_db ''notes'' []) \<noteq>
   fst (createTableValues example_db ''blanks'' [])"
  by (simp add: createTableValues_def db_Query_def example_db_def result_set_def
        Rows_Scan_def convertAssign_def row_tuple_def)


text \<open>
  C1 (amended): every value that is not NULL, the empty string included, is encoded
  between single quotes (the empty string as \<open>''\<close>), but a SQL NULL is not encoded:
  \<open>Scan\<close> refuses it. For a table whose \<open>SELECT *\<close> succeeds with at least one column:
  when every row holds one text per column and the result set ends without an error,
  \<open>createTableValues\<close> returns the comma-joined tuples of the quoted texts, and in a
  tuple an empty text is the literal \<open>''\<close> at its place; when the rows before the first
  row with a NULL are such rows, \<open>createTableValues\<close> returns the error of \<open>Scan\<close> for
  the column of the first NULL of that row; whenever some row holds a NULL,
  \<open>createTableValues\<close> returns an error, and if every row has one value per column,
  this error is the refusal of a NULL at one of the columns.
\<close>

theorem null_is_refused_empty_string_is_quoted:
  assumes "d (''SELECT * FROM '' @ name) = Inr r" and "columns r = Inr cols" and "cols \<noteq> []"
  shows "(body r = map (map SqlText) tss \<and> (\<forall>ss \<in> set tss. length ss = length cols) \<and>
          rows_Err r = None \<longrightarrow>
            fst (createTableValues d name log) = Inr (strings_Join (map spec_tuple tss) '','')) \<and>
         spec_tuple (xs @ [] # ys) =
           ''('' @ strings_Join (map quote xs @ (SQ @ SQ) # map quote ys) '','' @ '')'' \<and>
         (body r = map (map SqlText) tss @ (map SqlText ts @ SqlNull # vs) # rest \<and>
          (\<forall>ss \<in> set tss. length ss = length cols) \<and>
          length ts + Suc (length vs) = length cols \<longrightarrow>
            fst (createTableValues d name log) = Inl (Scan_Null (length ts))) \<and>
         ((\<exists>vals \<in> set (body r). SqlNull \<in> set vals) \<longrightarrow>
            (\<exists>e. fst (createTableValues d name log) = Inl e)) \<and>
         ((\<forall>vals \<in> set (body r). length vals = length cols) \<and>
          (\<exists>vals \<in> set (body r). SqlNull \<in> set vals) \<longrightarrow>
            (\<exists>j < length cols. fst (createTableValues d name log) = Inl (Scan_Null j)))"
proof -
  note v = createTableValues_fst [of d name r cols log, OF assms]
  have quoted: "fst (createTableValues d name log) = Inr (strings_Join (map spec_tuple tss) '','')"
    if "body r = map (map SqlText) tss" and "\<forall>ss \<in> set tss. length ss = length cols"
      and "rows_Err r = None"
    using createTableValues_text [of d name r cols tss log, OF assms that] .
  have lit: "spec_tuple (xs @ [] # ys) =
      ''('' @ strings_Join (map quote xs @ (SQ @ SQ) # map quote ys) '','' @ '')''"
    by (simp add: spec_tuple_def quote_def)
  have first: "fst (createTableValues d name log) = Inl (Scan_Null (length ts))"
    if "body r = map (map SqlText) tss @ (map SqlText ts @ SqlNull # vs) # rest"
      and "\<forall>ss \<in> set tss. length ss = length cols"
      and "length ts + Suc (length vs) = length cols"
    using that(1) read_rows_first_null [OF that(2,3), of rest "[]"] by (simp add: v)
  have fails: "\<exists>e. fst (createTableValues d name log) = Inl e"
    if "\<exists>vals \<in> set (body r). SqlNull \<in> set vals"
  proof -
    from that obtain vals where "vals \<in> set (body r)" and "SqlNull \<in> set vals" by blast
    then obtain e where "read_rows (length cols) (body r) [] = Inl e"
      using read_rows_null by blast
    then show ?thesis by (simp add: v)
  qed
  have refused: "\<exists>j < length cols. fst (createTableValues d name log) = Inl (Scan_Null j)"
    if "\<forall>vals \<in> set (body r). length vals = length cols"
      and "\<exists>vals \<in> set (body r). SqlNull \<in> set vals"
  proof -
    from that(2) obtain vals where "vals \<in> set (body r)" and "SqlNull \<in> set vals" by blast
    then obtain e where e: "read_rows (length cols) (body r) [] = Inl e"
      using read_rows_null by blast
    from read_rows_error_bound [OF that(1) e] obtain j where "j < length cols"
      and "e = Scan_Null j" by blast
    with e show ?thesis by (auto simp: v)
  qed
  from quoted lit first fails refused show ?thesis by blast
qed

text \<open>
  The table \<open>people\<close>, with an empty string in its second column, and the table
  \<open>notes\<close>, with a NULL in the second column of its second row.
\<close>

theorem null_is_refused_empty_string_is_quoted_witness:
  "fst (createTableValues cells_db ''people'' []) =
     Inr (''('' @ SQ @ ''1'' @ SQ @ '','' @ SQ @ SQ @ ''),('' @
          SQ @ ''2'' @ SQ @ '','' @ SQ @ ''bo'' @ SQ @ '')'') \<and>
   fst (createTableValues cells_db ''notes'' []) = Inl (Scan_Null 1)"
proof -
  let ?people = "\<lparr>columns = Inr [''id'', ''nick''],
      body = [[SqlText ''1'', SqlText []], [SqlText ''2'', SqlText ''bo'']],
      rows_Err = None, rows_Close = None\<rparr>"
  let ?notes = "\<lparr>columns = Inr [''id'', ''body''],
      body = [[SqlText ''1'', SqlText ''x''], [SqlText ''2'', SqlNull]],
      rows_Err = None, rows_Close = None\<rparr>"
  have p: "cells_db (''SELECT * FROM '' @ ''people'') = Inr ?people"
    and n: "cells_db (''SELECT * FROM '' @ ''notes'') = Inr ?notes"
    by (simp_all add: cells_db_def result_set_def)
  have "fst (createTableValues cells_db ''people'' []) =
      Inr (strings_Join (map spec_tuple [[''1'', []], [''2'', ''bo'']]) '','')"
    using null_is_refused_empty_string_is_quoted
            [of cells_db "''people''" ?people "[''id'', ''nick'']" "[[''1'', []], [''2'', ''bo'']]"
                "[]" "[]" "[]" "[]" "[]" "[]", OF p]
    by simp
  moreover have "fst (createTableValues cells_db ''notes'' []) = Inl (Scan_Null 1)"
    using null_is_refused_empty_string_is_quoted
            [of cells_db "''notes''" ?notes "[''id'', ''body'']" "[[''1'', ''x'']]"
                "[]" "[]" "[]" "[''2'']" "[]" "[]", OF n]
    by simp
  ultimately show ?thesis by (simp add: spec_tuple_def quote_def)
qed

lemma scan_cols_Inr: "scan_cols vals i = Inr ss \<Longrightarrow> vals = map SqlText ss"
  by (induction vals arbitrary: i ss)
     (auto simp: convertAssign_def split: sqlval.splits sum.splits)

lemma Rows_Scan_Inr: "Rows_Scan n vals = Inr ss \<Longrightarrow> vals = map SqlText ss \<and> length ss = n"
  by (auto simp: Rows_Scan_def split: if_splits dest: scan_cols_Inr)

text \<open>When the row loop returns tuples, every row it was given held one text per column.\<close>

lemma read_rows_Inr:
  "read_rows n rs acc = Inr out \<Longrightarrow>
   \<exists>tss. rs = map (map SqlText) tss \<and> (\<forall>ss \<in> set tss. length ss = n) \<and>
         out = acc @ map row_tuple tss"
proof (induction rs arbitrary: acc)
  case Nil
  then show ?case by simp
next
  case (Cons vals rs)
  from Cons.prems obtain data where d: "Rows_Scan n vals = Inr data"
    and r: "read_rows n rs (acc @ [row_tuple data]) = Inr out"
    by (auto split: sum.splits)
  from Cons.IH [OF r] obtain tss where "rs = map (map SqlText) tss"
    and "\<forall>ss \<in> set tss. length ss = n" and "out = (acc @ [row_tuple data]) @ map row_tuple tss"
    by blast
  with Rows_Scan_Inr [OF d] have "vals # rs = map (map SqlText) (data # tss) \<and>
      (\<forall>ss \<in> set (data # tss). length ss = n) \<and> out = acc @ map row_tuple (data # tss)"
    by simp
  then show ?case by (rule exI [of _ "data # tss"])
qed

text \<open>
  C2: for a table whose \<open>SELECT *\<close> succeeds with at least one column and whose rows
  hold one text per column, the row loop turns every row with the values
  \<open>v1 .. vn\<close> into the specification's tuple \<open>('v1','v2',...,'vn')\<close>, every value
  unchanged between its quotes whatever characters it holds; the loop returns these
  tuples in the order of the rows, and \<open>createTableValues\<close> returns them joined by
  commas (when the result set ends without an error). The tuple of line 200 is the
  specification's tuple for every non-empty list of values, and whenever the row loop
  returns tuples, on any rows, these are the tuples it was given followed by the
  specification's tuple of every row, in the order of the rows.
\<close>

theorem tuple_is_quoted_values:
  assumes "d (''SELECT * FROM '' @ name) = Inr r" and "columns r = Inr cols" and "cols \<noteq> []"
    and "body r = map (map SqlText) tss"
    and "\<forall>ss \<in> set tss. length ss = length cols"
  shows "read_rows (length cols) (body r) [] = Inr (map spec_tuple tss) \<and>
         (rows_Err r = None \<longrightarrow>
            fst (createTableValues d name log) = Inr (strings_Join (map spec_tuple tss) '','')) \<and>
         (\<forall>vs. vs \<noteq> [] \<longrightarrow> row_tuple vs = spec_tuple vs) \<and>
         (\<forall>rs acc out. read_rows (length cols) rs acc = Inr out \<longrightarrow>
            (\<exists>uss. rs = map (map SqlText) uss \<and> out = acc @ map spec_tuple uss))"
proof -
  have every: "\<exists>uss. rs = map (map SqlText) uss \<and> out = acc @ map spec_tuple uss"
    if "read_rows (length cols) rs acc = Inr out" for rs acc out
  proof -
    from read_rows_Inr [OF that] obtain uss where u: "rs = map (map SqlText) uss"
      and l: "\<forall>ss \<in> set uss. length ss = length cols" and o: "out = acc @ map row_tuple uss"
      by blast
    from l assms(3) have "\<forall>ss \<in> set uss. ss \<noteq> []" by auto
    then have "map row_tuple uss = map spec_tuple uss" by (simp add: row_tuple_spec)
    with u o show ?thesis by auto
  qed
  have "\<forall>ss \<in> set tss. ss \<noteq> []"
    using assms(3,5) by auto
  then have "map row_tuple tss = map spec_tuple tss"
    by (simp add: row_tuple_spec)
  then have "read_rows (length cols) (body r) [] = Inr (map spec_tuple tss)"
    using read_rows_text [OF assms(5), of "[]"] assms(4) by simp
  moreover have "fst (createTableValues d name log) =
      Inr (strings_Join (map spec_tuple tss) '','')" if "rows_Err r = None"
    using createTableValues_text [of d name r cols tss log, OF assms that] .
  ultimately show ?thesis using every by (simp add: row_tuple_spec)
qed

text \<open>The table \<open>quotes\<close>: a single quote, a backslash and an empty string in one row.\<close>

theorem tuple_is_quoted_values_witness:
  "fst (createTableValues cells_db ''quotes'' []) =
     Inr (''('' @ SQ @ ''O'' @ SQ @ ''Brien'' @ SQ @ '','' @
                 SQ @ [CHR 0x5C, CHR ''n''] @ SQ @ '','' @ SQ @ SQ @ '')'')"
proof -
  let ?quotes = "\<lparr>columns = Inr [''a'', ''b'', ''c''],
      body = [[SqlText (''O'' @ SQ @ ''Brien''), SqlText [CHR 0x5C, CHR ''n''], SqlText []]],
      rows_Err = None, rows_Close = None\<rparr>"
  have q: "cells_db (''SELECT * FROM '' @ ''quotes'') = Inr ?quotes"
    by (simp add: cells_db_def result_set_def)
  have "fst (createTableValues cells_db ''quotes'' []) =
      Inr (strings_Join (map spec_tuple [[''O'' @ SQ @ ''Brien'', [CHR 0x5C, CHR ''n''], []]]) '','')"
    using tuple_is_quoted_values
            [of cells_db "''quotes''" ?quotes "[''a'', ''b'', ''c'']"
                "[[''O'' @ SQ @ ''Brien'', [CHR 0x5C, CHR ''n''], []]]" "[]", OF q]
    by simp
  then show ?thesis by (simp add: spec_tuple_def quote_def)
qed

subsection \<open>The section of a table in the rendered document\<close>

lemma tmpl_Execute_at:
  "Tables data = pre @ t # post \<Longrightarrow>
   tmpl_Execute data =
     tmpl_header data @ concat (map tmpl_table pre) @ tmpl_table t @
     concat (map tmpl_table post) @ tmpl_footer data"
  by (simp add: tmpl_Execute_def)

text \<open>A run in which every step succeeds leaves the rendered document in the file.\<close>

lemma Dump_succeeds:
  assumes "\<not> exists (fs w) (dump_path D s)" and "os_Create_err s (dump_path D s) = None"
    and "write_err s = None"
    and "fst (getServerVersion (db D) []) = Inr sv"
    and "fst (getTables (db D) []) = (names, None)"
    and "map (\<lambda>n. fst (createTable (db D) n [])) names = map Inr ts"
  shows "fst (Dump D s w) = None \<and>
         fs (snd (Dump D s w)) =
           (fs w)(dump_path D s \<mapsto>
             tmpl_Execute \<lparr>DumpVersion = version, ServerVersion = sv, Tables = ts,
                            CompleteTime = time_Now_String s\<rparr>)"
proof -
  have "fst (Dump_loop (db D) names [] []) = None"
    and "fst (snd (Dump_loop (db D) names [] [])) = ts"
    using Dump_loop_success [OF assms(6), of "[]" "[]"] by simp_all
  then have "fst (Dump_data (db D) (time_Now_String s) (qlog w)) =
      (None, \<lparr>DumpVersion = version, ServerVersion = sv, Tables = ts,
                CompleteTime = time_Now_String s\<rparr>)"
    using Dump_data_loop [OF assms(4,5), of "time_Now_String s" "qlog w"] by simp
  from Dump_renders [OF assms(1,2) this assms(3)] show ?thesis .
qed

text \<open>
  C7: for a table whose \<open>SELECT *\<close> returns no row (with columns, and without an
  error) and whose creation statement is read, the values clause is the empty string
  and the record of the table carries it. \<open>Execute\<close> renders for this record, at its
  place in the document, the structure section only: the \<open>DROP TABLE\<close> line and the
  creation statement, and no lock, \<open>INSERT\<close> or unlock line. So does \<open>Dump\<close>: in a run
  that enumerates the table between the tables \<open>pre\<close> and \<open>post\<close>, all exported, the
  file it writes holds, between the sections of their records, exactly this structure
  section.
\<close>

theorem empty_table_omits_data_section:
  assumes "d (''SELECT * FROM '' @ name) = Inr r" and "columns r = Inr cols" and "cols \<noteq> []"
    and "body r = []" and "rows_Err r = None"
    and "fst (createTableSQL d name []) = Inr sql"
  shows "fst (createTableValues d name log) = Inr [] \<and>
         fst (createTable d name log) = Inr \<lparr>Name = name, SQL = sql, Values = []\<rparr> \<and>
         (\<forall>data pre post.
            Tables data = pre @ \<lparr>Name = name, SQL = sql, Values = []\<rparr> # post \<longrightarrow>
            tmpl_Execute data =
              tmpl_header data @ concat (map tmpl_table pre) @
              NL @ ''--'' @ NL @
              ''-- Table structure for table '' @ name @ NL @
              ''--'' @ NL @
              NL @
              ''DROP TABLE IF EXISTS '' @ name @ '';'' @ NL @
              sql @ '';'' @ NL @
              concat (map tmpl_table post) @ tmpl_footer data) \<and>
         (\<forall>D s w sv pre post tpre tpost.
            db D = d \<and> \<not> exists (fs w) (dump_path D s) \<and>
            os_Create_err s (dump_path D s) = None \<and> write_err s = None \<and>
            fst (getServerVersion d []) = Inr sv \<and>
            fst (getTables d []) = (pre @ name # post, None) \<and>
            map (\<lambda>n. fst (createTable d n [])) pre = map Inr tpre \<and>
            map (\<lambda>n. fst (createTable d n [])) post = map Inr tpost \<longrightarrow>
            fst (Dump D s w) = None \<and>
            fs (snd (Dump D s w)) (dump_path D s) =
              Some (''-- Go SQL Dump 0.1.0'' @ NL @
                    ''--'' @ NL @
                    ''-- ------------------------------------------------------'' @ NL @
                    ''-- Server version'' @ TAB @ sv @ NL @
                    NL @
                    NL @
                    concat (map tmpl_table tpre) @
                    NL @ ''--'' @ NL @
                    ''-- Table structure for table '' @ name @ NL @
                    ''--'' @ NL @
                    NL @
                    ''DROP TABLE IF EXISTS '' @ name @ '';'' @ NL @
                    sql @ '';'' @ NL @
                    concat (map tmpl_table tpost) @
                    NL @ ''-- Dump completed on '' @ time_Now_String s @ NL))"
proof -
  let ?t = "\<lparr>Name = name, SQL = sql, Values = []\<rparr>"
  have v: "\<And>l. fst (createTableValues d name l) = Inr []"
    using assms(1-5) by (rule createTableValues_empty)
  have c: "\<And>l. fst (createTable d name l) = Inr ?t"
  proof -
    fix l
    show "fst (createTable d name l) = Inr ?t"
      using assms(6) v [of "[]"] by (cases rule: createTable_cases [of d name l]) simp_all
  qed
  have e: "tmpl_Execute data =
      tmpl_header data @ concat (map tmpl_table pre) @
      NL @ ''--'' @ NL @ ''-- Table structure for table '' @ name @ NL @ ''--'' @ NL @ NL @
      ''DROP TABLE IF EXISTS '' @ name @ '';'' @ NL @ sql @ '';'' @ NL @
      concat (map tmpl_table post) @ tmpl_footer data"
    if "Tables data = pre @ ?t # post" for data pre post
    using tmpl_Execute_at [OF that] by (simp add: tmpl_table_def)
  have f: "fst (Dump D s w) = None \<and>
      fs (snd (Dump D s w)) (dump_path D s) =
        Some (''-- Go SQL Dump 0.1.0'' @ NL @ ''--'' @ NL @
              ''-- ------------------------------------------------------'' @ NL @
              ''-- Server version'' @ TAB @ sv @ NL @ NL @ NL @
              concat (map tmpl_table tpre) @
              NL @ ''--'' @ NL @ ''-- Table structure for table '' @ name @ NL @ ''--'' @ NL @
              NL @ ''DROP TABLE IF EXISTS '' @ name @ '';'' @ NL @ sql @ '';'' @ NL @
              concat (map tmpl_table tpost) @
              NL @ ''-- Dump completed on '' @ time_Now_String s @ NL)"
    if "db D = d" and "\<not> exists (fs w) (dump_path D s)"
      and "os_Create_err s (dump_path D s) = None" and "write_err s = None"
      and "fst (getServerVersion d []) = Inr sv"
      and "fst (getTables d []) = (pre @ name # post, None)"
      and "map (\<lambda>n. fst (createTable d n [])) pre = map Inr tpre"
      and "map (\<lambda>n. fst (createTable d n [])) post = map Inr tpost"
    for D s w sv pre post tpre tpost
  proof -
    let ?data = "\<lparr>DumpVersion = version, ServerVersion = sv, Tables = tpre @ ?t # tpost,
        CompleteTime = time_Now_String s\<rparr>"
    have "map (\<lambda>n. fst (createTable (db D) n [])) (pre @ name # post) =
        map Inr (tpre @ ?t # tpost)"
      using that(1,7,8) c [of "[]"] by simp
    from Dump_succeeds [OF that(2,3,4) that(5) [folded that(1)] that(6) [folded that(1)] this]
    have ok: "fst (Dump D s w) = None"
      and written: "fs (snd (Dump D s w)) (dump_path D s) = Some (tmpl_Execute ?data)"
      by simp_all
    have "tmpl_Execute ?data =
        tmpl_header ?data @ concat (map tmpl_table tpre) @
        NL @ ''--'' @ NL @ ''-- Table structure for table '' @ name @ NL @ ''--'' @ NL @ NL @
        ''DROP TABLE IF EXISTS '' @ name @ '';'' @ NL @ sql @ '';'' @ NL @
        concat (map tmpl_table tpost) @ tmpl_footer ?data"
      by (rule e) simp
    then have "tmpl_Execute ?data =
        ''-- Go SQL Dump 0.1.0'' @ NL @ ''--'' @ NL @
        ''-- ------------------------------------------------------'' @ NL @
        ''-- Server version'' @ TAB @ sv @ NL @ NL @ NL @
        concat (map tmpl_table tpre) @
        NL @ ''--'' @ NL @ ''-- Table structure for table '' @ name @ NL @ ''--'' @ NL @
        NL @ ''DROP TABLE IF EXISTS '' @ name @ '';'' @ NL @ sql @ '';'' @ NL @
        concat (map tmpl_table tpost) @
        NL @ ''-- Dump completed on '' @ time_Now_String s @ NL"
      by (simp add: tmpl_header_def tmpl_footer_def version_def)
    with ok written show ?thesis by simp
  qed
  from v c e f show ?thesis by blast
qed


text \<open>
  The specification's scenario: \<open>users\<close> with two rows, then \<open>logs\<close> with none. The
  file ends with the structure section of \<open>logs\<close> and the completion comment.
\<close>

theorem empty_table_omits_data_section_witness:
  "fst (Dump (example_Dumper example_db) example_sys empty_world) = None \<and>
   fs (snd (Dump (example_Dumper example_db) example_sys empty_world)) ''dumps/20260102.sql'' =
     Some (''-- Go SQL Dump 0.1.0'' @ NL @
           ''--'' @ NL @
           ''-- ------------------------------------------------------'' @ NL @
           ''-- Server version'' @ TAB @ ''8.0.36'' @ NL @
           NL @
           NL @
           NL @ ''--'' @ NL @
           ''-- Table structure for table users'' @ NL @
           ''--'' @ NL @
           NL @
           ''DROP TABLE IF EXISTS users;'' @ NL @
           ''CREATE TABLE users (id int, name text);'' @ NL @
           NL @ ''--'' @ NL @
           ''-- Dumping data for table users'' @ NL @
           ''--'' @ NL @
           NL @
           ''LOCK TABLES users WRITE;'' @ NL @
           ''INSERT INTO users VALUES ('' @ SQ @ ''1'' @ SQ @ '','' @ SQ @ ''alice'' @ SQ @
             ''),('' @ SQ @ ''2'' @ SQ @ '','' @ SQ @ ''bob'' @ SQ @ '');'' @ NL @
           ''UNLOCK TABLES;'' @ NL @
           NL @ ''--'' @ NL @
           ''-- Table structure for table logs'' @ NL @
           ''--'' @ NL @
           NL @
           ''DROP TABLE IF EXISTS logs;'' @ NL @
           ''CREATE TABLE logs (line text);'' @ NL @
           NL @ ''-- Dump completed on 2026-01-02 03:04:05 +0000 UTC'' @ NL)"
proof -
  let ?logs = "\<lparr>columns = Inr [''line''], body = [], rows_Err = None, rows_Close = None\<rparr>"
  let ?users = "\<lparr>Name = ''users'', SQL = ''CREATE TABLE users (id int, name text)'',
      Values = row_tuple [''1'', ''alice''] @ '','' @ row_tuple [''2'', ''bob'']\<rparr>"
  let ?D = "example_Dumper example_db"
  have sel: "example_db (''SELECT * FROM '' @ ''logs'') = Inr ?logs"
    by (simp add: example_db_def result_set_def)
  have sql: "fst (createTableSQL example_db ''logs'' []) = Inr ''CREATE TABLE logs (line text)''"
    by (simp add: run_defs example_db_def)
  have env: "db ?D = example_db \<and> \<not> exists (fs empty_world) (dump_path ?D example_sys) \<and>
      os_Create_err example_sys (dump_path ?D example_sys) = None \<and>
      write_err example_sys = None"
    by (simp add: example_Dumper_def exists_def empty_world_def example_sys_def)
  have sv: "fst (getServerVersion example_db []) = Inr ''8.0.36''"
    and tb: "fst (getTables example_db []) = ([''users''] @ ''logs'' # [], None)"
    and pre: "map (\<lambda>n. fst (createTable example_db n [])) [''users''] = map Inr [?users]"
    and post: "map (\<lambda>n. fst (createTable example_db n [])) [] = map Inr []"
    by (simp_all add: run_defs example_db_def)
  have res: "columns ?logs = Inr [''line'']" "[''line''] \<noteq> []" "body ?logs = []"
    "rows_Err ?logs = None"
    by simp_all
  note run = empty_table_omits_data_section
      [of example_db "''logs''" ?logs "[''line'']" "''CREATE TABLE logs (line text)''" "[]",
       OF sel res sql, THEN conjunct2, THEN conjunct2, THEN conjunct2, rule_format,
       of ?D empty_world example_sys "''8.0.36''" "[''users'']" "[]" "[?users]" "[]"]
  from run env sv tb pre post
  show ?thesis
    by (simp add: dump_path_def dump_name_def example_Dumper_def example_sys_def
          tmpl_table_def tmpl_data_def row_tuple_def)
qed


text \<open>
  C8, as stated, fails: the table \<open>notes\<close> is not empty (its \<open>SELECT *\<close> returns two
  rows), but its second row holds a NULL. Its export fails with the error of \<open>Scan\<close>,
  and \<open>Dump\<close> on the source that enumerates it returns this error and leaves the
  file empty: no \<open>INSERT\<close> statement is rendered for this non-empty table.
\<close>

theorem non_empty_table_with_null_counterexample:
  "cells_db ''SELECT * FROM notes'' =
     result_set [''id'', ''body''] [[SqlText ''1'', SqlText ''x''], [SqlText ''2'', SqlNull]] \<and>
   fst (createTable cells_db ''notes'' []) = Inl (Scan_Null 1) \<and>
   fst (Dump (example_Dumper cells_db) example_sys empty_world) = Some (Scan_Null 1) \<and>
   fs (snd (Dump (example_Dumper cells_db) example_sys empty_world)) ''dumps/20260102.sql'' =
     Some []"
  by (simp add: Dump_def Dump_data_def run_defs cells_db_def example_Dumper_def
        example_sys_def empty_world_def exists_def dump_path_def dump_name_def row_tuple_def)

text \<open>
  C8 (amended): for a table whose \<open>SELECT *\<close> succeeds with at least one column and
  delivers at least one row, if every row holds one text per column (no NULL) and the
  result set ends without an error, then the values clause is the comma-joined list
  of the rows' tuples, one tuple per row in the order of the rows, each tuple holding
  the quoted values of its row in the order of the row, which is the column order of
  the source; the record of the table carries this clause, \<open>Execute\<close> renders for the
  record the structure section followed by the data section whose \<open>INSERT\<close> statement
  holds exactly this clause, and so does \<open>Dump\<close> in a run that enumerates the table
  between the tables \<open>pre\<close> and \<open>post\<close>, all exported. If some row holds a NULL, the
  export of the table fails and no record and no \<open>INSERT\<close> comes of it.
\<close>

theorem text_rows_render_one_tuple_each:
  assumes "d (''SELECT * FROM '' @ name) = Inr r" and "columns r = Inr cols" and "cols \<noteq> []"
    and "vals = strings_Join (map spec_tuple tss) '',''"
  shows "(body r = map (map SqlText) tss \<and> tss \<noteq> [] \<and>
          (\<forall>ss \<in> set tss. length ss = length cols) \<and> rows_Err r = None \<longrightarrow>
            fst (createTableValues d name log) = Inr vals \<and>
            length (map spec_tuple tss) = length (body r) \<and>
            (\<forall>sql. fst (createTableSQL d name []) = Inr sql \<longrightarrow>
               fst (createTable d name log) = Inr \<lparr>Name = name, SQL = sql, Values = vals\<rparr> \<and>
               (\<forall>data pre post.
                  Tables data = pre @ \<lparr>Name = name, SQL = sql, Values = vals\<rparr> # post \<longrightarrow>
                  tmpl_Execute data =
                    tmpl_header data @ concat (map tmpl_table pre) @
                    NL @ ''--'' @ NL @
                    ''-- Table structure for table '' @ name @ NL @
                    ''--'' @ NL @
                    NL @
                    ''DROP TABLE IF EXISTS '' @ name @ '';'' @ NL @
                    sql @ '';'' @ NL @
                    NL @ ''--'' @ NL @
                    ''-- Dumping data for table '' @ name @ NL @
                    ''--'' @ NL @
                    NL @
                    ''LOCK TABLES '' @ name @ '' WRITE;'' @ NL @
                    ''INSERT INTO '' @ name @ '' VALUES '' @ vals @ '';'' @ NL @
                    ''UNLOCK TABLES;'' @ NL @
                    concat (map tmpl_table post) @ tmpl_footer data) \<and>
               (\<forall>D s w sv pre post tpre tpost.
                  db D = d \<and> \<not> exists (fs w) (dump_path D s) \<and>
                  os_Create_err s (dump_path D s) = None \<and> write_err s = None \<and>
                  fst (getServerVersion d []) = Inr sv \<and>
                  fst (getTables d []) = (pre @ name # post, None) \<and>
                  map (\<lambda>n. fst (createTable d n [])) pre = map Inr tpre \<and>
                  map (\<lambda>n. fst (createTable d n [])) post = map Inr tpost \<longrightarrow>
                  fst (Dump D s w) = None \<and>
                  fs (snd (Dump D s w)) (dump_path D s) =
                    Some (''-- Go SQL Dump 0.1.0'' @ NL @
                          ''--'' @ NL @
                          ''-- ------------------------------------------------------'' @ NL @
                          ''-- Server version'' @ TAB @ sv @ NL @
                          NL @
                          NL @
                          concat (map tmpl_table tpre) @
                          NL @ ''--'' @ NL @
                          ''-- Table structure for table '' @ name @ NL @
                          ''--'' @ NL @
                          NL @
                          ''DROP TABLE IF EXISTS '' @ name @ '';'' @ NL @
                          sql @ '';'' @ NL @
                          NL @ ''--'' @ NL @
                          ''-- Dumping data for table '' @ name @ NL @
                          ''--'' @ NL @
                          NL @
                          ''LOCK TABLES '' @ name @ '' WRITE;'' @ NL @
                          ''INSERT INTO '' @ name @ '' VALUES '' @ vals @ '';'' @ NL @
                          ''UNLOCK TABLES;'' @ NL @
                          concat (map tmpl_table tpost) @
                          NL @ ''-- Dump completed on '' @ time_Now_String s @ NL)))) \<and>
         ((\<exists>row \<in> set (body r). SqlNull \<in> set row) \<longrightarrow>
            (\<exists>e. fst (createTableValues d name log) = Inl e) \<and>
            (\<exists>e. fst (createTable d name log) = Inl e))"
proof (intro conjI impI)
  assume "\<exists>row \<in> set (body r). SqlNull \<in> set row"
  then obtain row where "row \<in> set (body r)" and "SqlNull \<in> set row" by blast
  then obtain e where "read_rows (length cols) (body r) [] = Inl e"
    using read_rows_null by blast
  then have v: "\<And>l. fst (createTableValues d name l) = Inl e"
    by (simp add: createTableValues_fst [of d name r cols, OF assms(1-3)])
  from v show "\<exists>e. fst (createTableValues d name log) = Inl e" by blast
  show "\<exists>e. fst (createTable d name log) = Inl e"
    using v [of "[]"] by (cases rule: createTable_cases [of d name log]) simp_all
next
  assume h: "body r = map (map SqlText) tss \<and> tss \<noteq> [] \<and>
      (\<forall>ss \<in> set tss. length ss = length cols) \<and> rows_Err r = None"
  let ?STRUCT = "\<lambda>sql. NL @ ''--'' @ NL @ ''-- Table structure for table '' @ name @ NL @
      ''--'' @ NL @ NL @ ''DROP TABLE IF EXISTS '' @ name @ '';'' @ NL @ sql @ '';'' @ NL"
  let ?DATA = "NL @ ''--'' @ NL @ ''-- Dumping data for table '' @ name @ NL @ ''--'' @ NL @
      NL @ ''LOCK TABLES '' @ name @ '' WRITE;'' @ NL @
      ''INSERT INTO '' @ name @ '' VALUES '' @ vals @ '';'' @ NL @ ''UNLOCK TABLES;'' @ NL"
  have v: "\<And>l. fst (createTableValues d name l) = Inr vals"
    using createTableValues_text [of d name r cols tss, OF assms(1-3)] h assms(4) by simp
  have ne: "vals \<noteq> []"
    using h assms(4) by (simp add: join_tuples_not_Nil)
  have n: "length (map spec_tuple tss) = length (body r)"
    using h by simp
  have c: "fst (createTable d name l) = Inr \<lparr>Name = name, SQL = sql, Values = vals\<rparr>"
    if "fst (createTableSQL d name []) = Inr sql" for sql l
    using that v [of "[]"] by (cases rule: createTable_cases [of d name l]) simp_all
  have t: "tmpl_table \<lparr>Name = name, SQL = sql, Values = vals\<rparr> = ?STRUCT sql @ ?DATA" for sql
    using ne by (simp add: tmpl_table_def tmpl_data_def)
  have e: "tmpl_Execute data =
      tmpl_header data @ concat (map tmpl_table pre) @ (?STRUCT sql @ ?DATA) @
      concat (map tmpl_table post) @ tmpl_footer data"
    if "Tables data = pre @ \<lparr>Name = name, SQL = sql, Values = vals\<rparr> # post"
    for data pre post sql
    using tmpl_Execute_at [OF that] by (simp only: t)
  have f: "fst (Dump D s w) = None \<and>
      fs (snd (Dump D s w)) (dump_path D s) =
        Some (''-- Go SQL Dump 0.1.0'' @ NL @ ''--'' @ NL @
              ''-- ------------------------------------------------------'' @ NL @
              ''-- Server version'' @ TAB @ sv @ NL @ NL @ NL @
              concat (map tmpl_table tpre) @ (?STRUCT sql @ ?DATA) @
              concat (map tmpl_table tpost) @
              NL @ ''-- Dump completed on '' @ time_Now_String s @ NL)"
    if "fst (createTableSQL d name []) = Inr sql"
      and "db D = d" and "\<not> exists (fs w) (dump_path D s)"
      and "os_Create_err s (dump_path D s) = None" and "write_err s = None"
      and "fst (getServerVersion d []) = Inr sv"
      and "fst (getTables d []) = (pre @ name # post, None)"
      and "map (\<lambda>n. fst (createTable d n [])) pre = map Inr tpre"
      and "map (\<lambda>n. fst (createTable d n [])) post = map Inr tpost"
    for sql D s w sv pre post tpre tpost
  proof -
    let ?t = "\<lparr>Name = name, SQL = sql, Values = vals\<rparr>"
    let ?data = "\<lparr>DumpVersion = version, ServerVersion = sv, Tables = tpre @ ?t # tpost,
        CompleteTime = time_Now_String s\<rparr>"
    have "map (\<lambda>n. fst (createTable (db D) n [])) (pre @ name # post) =
        map Inr (tpre @ ?t # tpost)"
      using that(2,8,9) c [OF that(1), of "[]"] by simp
    from Dump_succeeds [OF that(3,4,5) that(6) [folded that(2)] that(7) [folded that(2)] this]
    have ok: "fst (Dump D s w) = None"
      and written: "fs (snd (Dump D s w)) (dump_path D s) = Some (tmpl_Execute ?data)"
      by simp_all
    have "tmpl_Execute ?data =
        tmpl_header ?data @ concat (map tmpl_table tpre) @ (?STRUCT sql @ ?DATA) @
        concat (map tmpl_table tpost) @ tmpl_footer ?data"
      by (rule e) simp
    then have "tmpl_Execute ?data =
        ''-- Go SQL Dump 0.1.0'' @ NL @ ''--'' @ NL @
        ''-- ------------------------------------------------------'' @ NL @
        ''-- Server version'' @ TAB @ sv @ NL @ NL @ NL @
        concat (map tmpl_table tpre) @ (?STRUCT sql @ ?DATA) @
        concat (map tmpl_table tpost) @
        NL @ ''-- Dump completed on '' @ time_Now_String s @ NL"
      by (simp add: tmpl_header_def tmpl_footer_def version_def)
    with ok written show ?thesis by simp
  qed
  show "fst (createTableValues d name log) = Inr vals" by (rule v)
  show "length (map spec_tuple tss) = length (body r)" by (rule n)
  show "\<forall>sql. fst (createTableSQL d name []) = Inr sql \<longrightarrow>
     fst (createTable d name log) = Inr \<lparr>Name = name, SQL = sql, Values = vals\<rparr> \<and>
     (\<forall>data pre post.
        Tables data = pre @ \<lparr>Name = name, SQL = sql, Values = vals\<rparr> # post \<longrightarrow>
        tmpl_Execute data =
          tmpl_header data @ concat (map tmpl_table pre) @
          NL @ ''--'' @ NL @
          ''-- Table structure for table '' @ name @ NL @
          ''--'' @ NL @
          NL @
          ''DROP TABLE IF EXISTS '' @ name @ '';'' @ NL @
          sql @ '';'' @ NL @
          NL @ ''--'' @ NL @
          ''-- Dumping data for table '' @ name @ NL @
          ''--'' @ NL @
          NL @
          ''LOCK TABLES '' @ name @ '' WRITE;'' @ NL @
          ''INSERT INTO '' @ name @ '' VALUES '' @ vals @ '';'' @ NL @
          ''UNLOCK TABLES;'' @ NL @
          concat (map tmpl_table post) @ tmpl_footer data) \<and>
     (\<forall>D s w sv pre post tpre tpost.
        db D = d \<and> \<not> exists (fs w) (dump_path D s) \<and>
        os_Create_err s (dump_path D s) = None \<and> write_err s = None \<and>
        fst (getServerVersion d []) = Inr sv \<and>
        fst (getTables d []) = (pre @ name # post, None) \<and>
        map (\<lambda>n. fst (createTable d n [])) pre = map Inr tpre \<and>
        map (\<lambda>n. fst (createTable d n [])) post = map Inr tpost \<longrightarrow>
        fst (Dump D s w) = None \<and>
        fs (snd (Dump D s w)) (dump_path D s) =
          Some (''-- Go SQL Dump 0.1.0'' @ NL @
                ''--'' @ NL @
                ''-- ------------------------------------------------------'' @ NL @
                ''-- Server version'' @ TAB @ sv @ NL @
                NL @
                NL @
                concat (map tmpl_table tpre) @
                NL @ ''--'' @ NL @
                ''-- Table structure for table '' @ name @ NL @
                ''--'' @ NL @
                NL @
                ''DROP TABLE IF EXISTS '' @ name @ '';'' @ NL @
                sql @ '';'' @ NL @
                NL @ ''--'' @ NL @
                ''-- Dumping data for table '' @ name @ NL @
                ''--'' @ NL @
                NL @
                ''LOCK TABLES '' @ name @ '' WRITE;'' @ NL @
                ''INSERT INTO '' @ name @ '' VALUES '' @ vals @ '';'' @ NL @
                ''UNLOCK TABLES;'' @ NL @
                concat (map tmpl_table tpost) @
                NL @ ''-- Dump completed on '' @ time_Now_String s @ NL))"
  proof (intro allI impI conjI)
    fix sql
    assume s: "fst (createTableSQL d name []) = Inr sql"
    show "fst (createTable d name log) = Inr \<lparr>Name = name, SQL = sql, Values = vals\<rparr>"
      using s by (rule c)
  next
    fix sql and data :: dump and pre post
    assume "Tables data = pre @ \<lparr>Name = name, SQL = sql, Values = vals\<rparr> # post"
    from e [OF this] show "tmpl_Execute data =
          tmpl_header data @ concat (map tmpl_table pre) @
          NL @ ''--'' @ NL @
          ''-- Table structure for table '' @ name @ NL @
          ''--'' @ NL @
          NL @
          ''DROP TABLE IF EXISTS '' @ name @ '';'' @ NL @
          sql @ '';'' @ NL @
          NL @ ''--'' @ NL @
          ''-- Dumping data for table '' @ name @ NL @
          ''--'' @ NL @
          NL @
          ''LOCK TABLES '' @ name @ '' WRITE;'' @ NL @
          ''INSERT INTO '' @ name @ '' VALUES '' @ vals @ '';'' @ NL @
          ''UNLOCK TABLES;'' @ NL @
          concat (map tmpl_table post) @ tmpl_footer data"
      by simp
  next
    fix sql D s and w :: world and sv pre post tpre tpost
    assume s: "fst (createTableSQL d name []) = Inr sql"
      and a: "db D = d \<and> \<not> exists (fs w) (dump_path D s) \<and>
        os_Create_err s (dump_path D s) = None \<and> write_err s = None \<and>
        fst (getServerVersion d []) = Inr sv \<and>
        fst (getTables d []) = (pre @ name # post, None) \<and>
        map (\<lambda>n. fst (createTable d n [])) pre = map Inr tpre \<and>
        map (\<lambda>n. fst (createTable d n [])) post = map Inr tpost"
    have r: "fst (Dump D s w) = None \<and>
      fs (snd (Dump D s w)) (dump_path D s) =
        Some (''-- Go SQL Dump 0.1.0'' @ NL @ ''--'' @ NL @
              ''-- ------------------------------------------------------'' @ NL @
              ''-- Server version'' @ TAB @ sv @ NL @ NL @ NL @
              concat (map tmpl_table tpre) @ (?STRUCT sql @ ?DATA) @
              concat (map tmpl_table tpost) @
              NL @ ''-- Dump completed on '' @ time_Now_String s @ NL)"
    proof (rule f [OF s])
      from a show "db D = d" and "\<not> exists (fs w) (dump_path D s)"
        and "os_Create_err s (dump_path D s) = None" and "write_err s = None"
        and "fst (getServerVersion d []) = Inr sv"
        and "fst (getTables d []) = (pre @ name # post, None)"
        and "map (\<lambda>n. fst (createTable d n [])) pre = map Inr tpre"
        and "map (\<lambda>n. fst (createTable d n [])) post = map Inr tpost"
        by simp_all
    qed
    from r show "fst (Dump D s w) = None" by blast
    from r show "fs (snd (Dump D s w)) (dump_path D s) =
          Some (''-- Go SQL Dump 0.1.0'' @ NL @
                ''--'' @ NL @
                ''-- ------------------------------------------------------'' @ NL @
                ''-- Server version'' @ TAB @ sv @ NL @
                NL @
                NL @
                concat (map tmpl_table tpre) @
                NL @ ''--'' @ NL @
                ''-- Table structure for table '' @ name @ NL @
                ''--'' @ NL @
                NL @
                ''DROP TABLE IF EXISTS '' @ name @ '';'' @ NL @
                sql @ '';'' @ NL @
                NL @ ''--'' @ NL @
                ''-- Dumping data for table '' @ name @ NL @
                ''--'' @ NL @
                NL @
                ''LOCK TABLES '' @ name @ '' WRITE;'' @ NL @
                ''INSERT INTO '' @ name @ '' VALUES '' @ vals @ '';'' @ NL @
                ''UNLOCK TABLES;'' @ NL @
                concat (map tmpl_table tpost) @
                NL @ ''-- Dump completed on '' @ time_Now_String s @ NL)"
      by simp
  qed
qed


text \<open>
  The specification's scenario, where \<open>users\<close> has the rows \<open>(1, alice)\<close> and
  \<open>(2, bob)\<close> and is followed by \<open>logs\<close>; and the table \<open>notes\<close>, with a NULL.
\<close>

theorem text_rows_render_one_tuple_each_witness:
  "fst (createTableValues example_db ''users'' []) =
     Inr (''('' @ SQ @ ''1'' @ SQ @ '','' @ SQ @ ''alice'' @ SQ @ ''),('' @
          SQ @ ''2'' @ SQ @ '','' @ SQ @ ''bob'' @ SQ @ '')'') \<and>
   fs (snd (Dump (example_Dumper example_db) example_sys empty_world)) ''dumps/20260102.sql'' =
     Some (''-- Go SQL Dump 0.1.0'' @ NL @
           ''--'' @ NL @
           ''-- ------------------------------------------------------'' @ NL @
           ''-- Server version'' @ TAB @ ''8.0.36'' @ NL @
           NL @
           NL @
           NL @ ''--'' @ NL @
           ''-- Table structure for table users'' @ NL @
           ''--'' @ NL @
           NL @
           ''DROP TABLE IF EXISTS users;'' @ NL @
           ''CREATE TABLE users (id int, name text);'' @ NL @
           NL @ ''--'' @ NL @
           ''-- Dumping data for table users'' @ NL @
           ''--'' @ NL @
           NL @
           ''LOCK TABLES users WRITE;'' @ NL @
           ''INSERT INTO users VALUES ('' @ SQ @ ''1'' @ SQ @ '','' @ SQ @ ''alice'' @ SQ @
             ''),('' @ SQ @ ''2'' @ SQ @ '','' @ SQ @ ''bob'' @ SQ @ '');'' @ NL @
           ''UNLOCK TABLES;'' @ NL @
           NL @ ''--'' @ NL @
           ''-- Table structure for table logs'' @ NL @
           ''--'' @ NL @
           NL @
           ''DROP TABLE IF EXISTS logs;'' @ NL @
           ''CREATE TABLE logs (line text);'' @ NL @
           NL @ ''-- Dump completed on 2026-01-02 03:04:05 +0000 UTC'' @ NL) \<and>
   (\<exists>e. fst (createTable cells_db ''notes'' []) = Inl e)"
proof -
  let ?users = "\<lparr>columns = Inr [''id'', ''name''],
      body = [[SqlText ''1'', SqlText ''alice''], [SqlText ''2'', SqlText ''bob'']],
      rows_Err = None, rows_Close = None\<rparr>"
  let ?notes = "\<lparr>columns = Inr [''id'', ''body''],
      body = [[SqlText ''1'', SqlText ''x''], [SqlText ''2'', SqlNull]],
      rows_Err = None, rows_Close = None\<rparr>"
  let ?tss = "[[''1'', ''alice''], [''2'', ''bob'']]"
  let ?vals = "strings_Join (map spec_tuple ?tss) '',''"
  let ?logs = "\<lparr>Name = ''logs'', SQL = ''CREATE TABLE logs (line text)'', Values = []\<rparr>"
  let ?D = "example_Dumper example_db"
  have sel: "example_db (''SELECT * FROM '' @ ''users'') = Inr ?users"
    and cols: "columns ?users = Inr [''id'', ''name'']" "[''id'', ''name''] \<noteq> []"
    by (simp_all add: example_db_def result_set_def)
  have rows: "body ?users = map (map SqlText) ?tss \<and> ?tss \<noteq> [] \<and>
      (\<forall>ss \<in> set ?tss. length ss = length [''id'', ''name'']) \<and> rows_Err ?users = None"
    by simp
  have sql: "fst (createTableSQL example_db ''users'' []) =
      Inr ''CREATE TABLE users (id int, name text)''"
    by (simp add: run_defs example_db_def)
  have env: "db ?D = example_db \<and> \<not> exists (fs empty_world) (dump_path ?D example_sys) \<and>
      os_Create_err example_sys (dump_path ?D example_sys) = None \<and>
      write_err example_sys = None"
    by (simp add: example_Dumper_def exists_def empty_world_def example_sys_def)
  have sv: "fst (getServerVersion example_db []) = Inr ''8.0.36''"
    and tb: "fst (getTables example_db []) = ([] @ ''users'' # [''logs''], None)"
    and pre: "map (\<lambda>n. fst (createTable example_db n [])) [] = map Inr []"
    and post: "map (\<lambda>n. fst (createTable example_db n [])) [''logs''] = map Inr [?logs]"
    by (simp_all add: run_defs example_db_def)
  note users = text_rows_render_one_tuple_each
      [where d = example_db and name = "''users''" and r = ?users and tss = ?tss
         and vals = ?vals and log = "[]", OF sel cols refl, THEN conjunct1, THEN mp, OF rows]
  note clause = users [THEN conjunct1]
  note run = users [THEN conjunct2, THEN conjunct2, THEN spec, THEN mp, OF sql,
      THEN conjunct2, THEN conjunct2, rule_format,
      of ?D empty_world example_sys "''8.0.36''" "[]" "[''logs'']" "[]" "[?logs]"]
  have seln: "cells_db (''SELECT * FROM '' @ ''notes'') = Inr ?notes"
    and colsn: "columns ?notes = Inr [''id'', ''body'']" "[''id'', ''body''] \<noteq> []"
    by (simp_all add: cells_db_def result_set_def)
  note nulls = text_rows_render_one_tuple_each
      [where d = cells_db and name = "''notes''" and r = ?notes and tss = "[]"
         and vals = "[]" and log = "[]", OF seln colsn, THEN conjunct2]
  have 1: "fst (createTableValues example_db ''users'' []) = Inr ?vals"
    using clause by simp
  have 2: "fs (snd (Dump ?D example_sys empty_world)) (dump_path ?D example_sys) =
      Some (''-- Go SQL Dump 0.1.0'' @ NL @
            ''--'' @ NL @
            ''-- ------------------------------------------------------'' @ NL @
            ''-- Server version'' @ TAB @ ''8.0.36'' @ NL @
            NL @
            NL @
            concat (map tmpl_table []) @
            NL @ ''--'' @ NL @
            ''-- Table structure for table '' @ ''users'' @ NL @
            ''--'' @ NL @
            NL @
            ''DROP TABLE IF EXISTS '' @ ''users'' @ '';'' @ NL @
            ''CREATE TABLE users (id int, name text)'' @ '';'' @ NL @
            NL @ ''--'' @ NL @
            ''-- Dumping data for table '' @ ''users'' @ NL @
            ''--'' @ NL @
            NL @
            ''LOCK TABLES '' @ ''users'' @ '' WRITE;'' @ NL @
            ''INSERT INTO '' @ ''users'' @ '' VALUES '' @ ?vals @ '';'' @ NL @
            ''UNLOCK TABLES;'' @ NL @
            concat (map tmpl_table [?logs]) @
            NL @ ''-- Dump completed on '' @ time_Now_String example_sys @ NL)"
    using run env sv tb pre post by blast
  have 3: "\<exists>e. fst (createTable cells_db ''notes'' []) = Inl e"
    using nulls by simp
  from 1 2 3 show ?thesis
    by (simp add: dump_path_def dump_name_def example_Dumper_def example_sys_def
          tmpl_table_def spec_tuple_def quote_def)
qed

subsection \<open>The echoed table name\<close>

text \<open>
  C5, as stated, fails: in the source \<open>cells_db\<close> the row that \<open>SHOW CREATE TABLE
  ghost\<close> returns names the table \<open>other\<close>, and its creation statement is NULL. The
  export of \<open>ghost\<close> fails, but with the error of \<open>Scan\<close> (returned at line 160, before
  the names are compared), not with the error of line 163.
\<close>

theorem echo_mismatch_other_error_counterexample:
  "cells_db ''SHOW CREATE TABLE ghost'' =
     result_set [''Table'', ''Create Table''] [[SqlText ''other'', SqlNull]] \<and>
   fst (createTableSQL cells_db ''ghost'' []) = Inl (Scan_Null 1) \<and>
   fst (createTable cells_db ''ghost'' []) = Inl (Scan_Null 1) \<and>
   fst (createTable cells_db ''ghost'' []) \<noteq>
     Inl (Errors_New ''Returned table is not the same as requested table'')"
  by (simp add: run_defs cells_db_def)

lemma createTableSQL_first_row:
  assumes "d (''SHOW CREATE TABLE '' @ name) = Inr r" and "body r = vals # others"
  shows "fst (createTableSQL d name log) =
           (case Rows_Scan2 vals of
              Inl e \<Rightarrow> Inl e
            | Inr (table_return, table_sql) \<Rightarrow>
                (case rows_Close r of
                   Some m \<Rightarrow> Inl (Driver_Error m)
                 | None \<Rightarrow>
                     if table_return \<noteq> name
                     then Inl (Errors_New ''Returned table is not the same as requested table'')
                     else Inr table_sql))"
  using assms
  by (simp add: createTableSQL_def db_QueryRow_Scan_def db_Query_def
        split: sum.splits option.splits prod.splits)

lemma Rows_Scan2_cases:
  "Rows_Scan2 (v0 # vs) =
     (case v0 of
        SqlNull \<Rightarrow> (if length vs = 1 then Inl (Scan_Null 0) else Inl (Scan_Arity (Suc (length vs)) 2))
      | SqlText s0 \<Rightarrow>
          (case vs of
             [SqlText s1] \<Rightarrow> Inr (s0, s1)
           | [SqlNull] \<Rightarrow> Inl (Scan_Null 1)
           | _ \<Rightarrow> Inl (Scan_Arity (Suc (length vs)) 2)))"
  by (simp add: Rows_Scan2_def convertAssign_def split: list.splits sqlval.splits)

text \<open>
  C5 (amended): when the first value of the first row that \<open>SHOW CREATE TABLE name\<close>
  returns is not the text \<open>name\<close>, the export of the table fails: \<open>createTableSQL\<close>
  and \<open>createTable\<close> return the same error, and whatever tables are enumerated,
  \<open>data.Tables\<close> holds no record named \<open>name\<close> when the loop of \<open>Dump\<close> ends, nor when
  the assembly of the document does. The error is the one of line 163 exactly when
  the row scans (it holds two texts) and the result set closes without an error; when
  the row scans and the close fails, it is the driver's error of the close; when the
  row does not scan, it is the error of \<open>Scan\<close>.
\<close>

theorem echo_mismatch_fails_table:
  assumes "d (''SHOW CREATE TABLE '' @ name) = Inr r"
    and "body r = (v0 # vs) # others" and "v0 \<noteq> SqlText name"
  shows "\<exists>e. fst (createTableSQL d name log) = Inl e \<and>
             fst (createTable d name log) = Inl e \<and>
             (e = Errors_New ''Returned table is not the same as requested table'' \<longleftrightarrow>
                (\<exists>echo sql. v0 = SqlText echo \<and> vs = [SqlText sql]) \<and> rows_Close r = None) \<and>
             ((\<exists>echo sql. v0 = SqlText echo \<and> vs = [SqlText sql]) \<longrightarrow>
                e = (case rows_Close r of
                       Some m \<Rightarrow> Driver_Error m
                     | None \<Rightarrow> Errors_New ''Returned table is not the same as requested table'')) \<and>
             (\<not> (\<exists>echo sql. v0 = SqlText echo \<and> vs = [SqlText sql]) \<longrightarrow> scan_error e) \<and>
             name \<notin> Name ` set (fst (snd (Dump_loop d names [] log))) \<and>
             name \<notin> Name ` set (Tables (snd (fst (Dump_data d done log))))"
proof -
  let ?new = "Errors_New ''Returned table is not the same as requested table''"
  let ?scans = "\<exists>echo sql. v0 = SqlText echo \<and> vs = [SqlText sql]"
  define e where "e =
    (case Rows_Scan2 (v0 # vs) of
       Inl e \<Rightarrow> e
     | Inr x \<Rightarrow> (case rows_Close r of Some m \<Rightarrow> Driver_Error m | None \<Rightarrow> ?new))"
  have s: "fst (createTableSQL d name l) = Inl e" for l
  proof (cases "Rows_Scan2 (v0 # vs)")
    case (Inl e')
    then show ?thesis
      by (simp add: createTableSQL_first_row [of d name, OF assms(1,2)] e_def)
  next
    case (Inr x)
    obtain table_return table_sql where x: "x = (table_return, table_sql)" by (cases x)
    have "v0 = SqlText table_return"
      using Inr x by (auto simp: Rows_Scan2_cases split: sqlval.splits list.splits if_splits)
    with assms(3) have "table_return \<noteq> name" by auto
    with Inr x show ?thesis
      by (simp add: createTableSQL_first_row [of d name, OF assms(1,2)] e_def split: option.splits)
  qed
  have c: "fst (createTable d name l) = Inl e" for l
    using s [of "[]"] by (cases rule: createTable_cases [of d name l]) simp_all
  have scans: "e = (case rows_Close r of Some m \<Rightarrow> Driver_Error m | None \<Rightarrow> ?new)" if ?scans
    using that by (auto simp: e_def Rows_Scan2_cases)
  have not_scans: "scan_error e" if "\<not> ?scans"
    using that
    by (auto simp: e_def Rows_Scan2_cases scan_error_def split: sqlval.splits list.splits)
  have iff: "e = ?new \<longleftrightarrow> ?scans \<and> rows_Close r = None"
  proof (cases ?scans)
    case True
    from scans [OF True] True show ?thesis by (auto split: option.splits)
  next
    case False
    from not_scans [OF False] False show ?thesis by (auto simp: scan_error_def)
  qed
  have n: "\<And>names l. name \<notin> Name ` set (fst (snd (Dump_loop d names [] l)))"
    using c [of "[]"] by (rule createTable_fails_not_added)
  obtain names' l' where
    "Tables (snd (fst (Dump_data d done log))) = fst (snd (Dump_loop d names' [] l'))"
    using Dump_data_Tables by blast
  with n [of names' l'] have "name \<notin> Name ` set (Tables (snd (fst (Dump_data d done log))))"
    by simp
  with s [of log] c [of log] iff scans not_scans n [of names log] show ?thesis by blast
qed

text \<open>
  The table \<open>ghost\<close> of the example source, whose row scans: the error is the one of
  line 163, and the document of the source that enumerates \<open>users\<close>, \<open>ghost\<close>, \<open>logs\<close>
  holds no record of \<open>ghost\<close>. The table \<open>ghost\<close> of \<open>cells_db\<close>, whose row does not
  scan: the error is the one of \<open>Scan\<close>.
\<close>

theorem echo_mismatch_fails_table_witness:
  "fst (createTable ghost_db ''ghost'' []) =
     Inl (Errors_New ''Returned table is not the same as requested table'') \<and>
   ''ghost'' \<notin> Name ` set (Tables (snd (fst (Dump_data ghost_db ''now'' [])))) \<and>
   (\<exists>e. fst (createTable cells_db ''ghost'' []) = Inl e \<and> scan_error e)"
proof -
  let ?r = "\<lparr>columns = Inr [''Table'', ''Create Table''],
      body = [[SqlText ''other'', SqlText ''CREATE TABLE other (x int)'']],
      rows_Err = None, rows_Close = None\<rparr>"
  let ?n = "\<lparr>columns = Inr [''Table'', ''Create Table''],
      body = [[SqlText ''other'', SqlNull]], rows_Err = None, rows_Close = None\<rparr>"
  have q: "ghost_db (''SHOW CREATE TABLE '' @ ''ghost'') = Inr ?r"
    by (simp add: ghost_db_def example_db_def result_set_def)
  have b: "body ?r = (SqlText ''other'' # [SqlText ''CREATE TABLE other (x int)'']) # []"
    and o: "SqlText ''other'' \<noteq> SqlText ''ghost''"
    by simp_all
  have qn: "cells_db (''SHOW CREATE TABLE '' @ ''ghost'') = Inr ?n"
    by (simp add: cells_db_def result_set_def)
  have bn: "body ?n = (SqlText ''other'' # [SqlNull]) # []"
    by simp
  from echo_mismatch_fails_table [of ghost_db "''ghost''", OF q b o, of "[]" "[]" "''now''"]
  have 1: "fst (createTable ghost_db ''ghost'' []) =
      Inl (Errors_New ''Returned table is not the same as requested table'') \<and>
    ''ghost'' \<notin> Name ` set (Tables (snd (fst (Dump_data ghost_db ''now'' []))))"
    by auto
  from echo_mismatch_fails_table [of cells_db "''ghost''", OF qn bn o, of "[]" "[]" "''now''"]
  have 2: "\<exists>e. fst (createTable cells_db ''ghost'' []) = Inl e \<and> scan_error e"
    by auto
  from 1 2 show ?thesis by blast
qed

subsection \<open>The specification's end-to-end scenario\<close>

text \<open>
  The source with the tables \<open>users\<close> (two rows) and \<open>logs\<close> (no row): \<open>Dump\<close>
  succeeds, issues its six queries in order, and the file holds the header, the
  structure and data sections of \<open>users\<close>, the structure section of \<open>logs\<close>, and the
  completion comment.
\<close>

lemma end_to_end_scenario:
  "Dump (example_Dumper example_db) example_sys empty_world =
     (None,
      \<lparr>fs = [''dumps/20260102.sql'' \<mapsto>
          ''-- Go SQL Dump 0.1.0'' @ NL @
          ''--'' @ NL @
          ''-- ------------------------------------------------------'' @ NL @
          ''-- Server version'' @ TAB @ ''8.0.36'' @ NL @
          NL @
          NL @
          NL @
          ''--'' @ NL @
          ''-- Table structure for table users'' @ NL @
          ''--'' @ NL @
          NL @
          ''DROP TABLE IF EXISTS users;'' @ NL @
          ''CREATE TABLE users (id int, name text);'' @ NL @
          NL @
          ''--'' @ NL @
          ''-- Dumping data for table users'' @ NL @
          ''--'' @ NL @
          NL @
          ''LOCK TABLES users WRITE;'' @ NL @
          ''INSERT INTO users VALUES ('' @ SQ @ ''1'' @ SQ @ '','' @ SQ @ ''alice'' @ SQ @
            ''),('' @ SQ @ ''2'' @ SQ @ '','' @ SQ @ ''bob'' @ SQ @ '');'' @ NL @
          ''UNLOCK TABLES;'' @ NL @
          NL @
          ''--'' @ NL @
          ''-- Table structure for table logs'' @ NL @
          ''--'' @ NL @
          NL @
          ''DROP TABLE IF EXISTS logs;'' @ NL @
          ''CREATE TABLE logs (line text);'' @ NL @
          NL @
          ''-- Dump completed on 2026-01-02 03:04:05 +0000 UTC'' @ NL],
       qlog = [''SELECT version()'', ''SHOW TABLES'', ''SHOW CREATE TABLE users'',
               ''SELECT * FROM users'', ''SHOW CREATE TABLE logs'', ''SELECT * FROM logs'']\<rparr>)"
  by (simp add: Dump_def Dump_data_def run_defs example_db_def example_Dumper_def
        example_sys_def empty_world_def exists_def dump_path_def dump_name_def
        tmpl_Execute_def tmpl_header_def tmpl_table_def tmpl_data_def tmpl_footer_def
        row_tuple_def version_def)

end
